theory Spec2Isabelle
  imports Main "HOL-Library.Multiset" "HOL-Library.AList" "HOL-Library.Log_Nat"
begin

section \<open>Data model of the kernel debug adapters\<close>

text \<open>
  The development embeds the two \<open>KernelDebugAdapter\<close> classes of the repository: the
  interactive-window adapter (the class that owns
  \<open>cellToDebugFileSortedInReverseOrderByLineNumber\<close>) and the notebook adapter of
  \<open>src/notebooks/debugger/kernelDebugAdapter.ts\<close> (the class that owns \<open>cellToFile\<close>).
  Line numbers are JavaScript numbers that hold integers: a number is modelled by the
  integer it holds, and \<open>+\<close> and \<open>-\<close> on numbers round to the nearest double as the
  engine does (\<open>jsAdd\<close>, \<open>jsSub\<close> below). An optional property is an \<open>option\<close>; a
  thrown exception or a rejected promise is the left summand of a sum type.
\<close>

datatype error =
    Error string
  | TypeError
  | SyntaxError
  | Rejected string

text \<open>A \<open>Uri\<close> of the editor host, reduced to what the adapters read: \<open>.path\<close> and \<open>.toString()\<close>.\<close>

record Uri =
  uri_path :: string
  uri_toString :: string

record Interactive =
  uristring :: string
  lineIndex :: int
  originalSource :: string

record GeneratedCode =
  gc_code :: string
  hasCellMarker :: bool
  firstNonBlankLineIndex :: int
  lineOffsetRelativeToIndexOfFirstLineInCell :: int

record InteractiveCellMetadata =
  interactive :: Interactive
  generatedCode :: "GeneratedCode option"

text \<open>One element of \<open>cellToDebugFileSortedInReverseOrderByLineNumber\<close>.\<close>

record CellDump =
  debugFilePath :: string
  interactiveWindow :: Uri
  lineOffset :: int
  metadata :: InteractiveCellMetadata

text \<open>\<open>DebugProtocol.Source\<close>, with the two properties the adapters touch.\<close>

record Source =
  src_name :: "string option"
  src_path :: "string option"

text \<open>The \<open>lines\<close> argument of \<open>translateDebuggerFileToRealFile\<close>.\<close>

record Lines =
  l_line :: "int option"
  l_endLine :: "int option"
  l_lines :: "int list option"

record SourceBreakpoint =
  sb_line :: int
  sb_column :: "int option"
  sb_condition :: "string option"

text \<open>The \<open>location\<close> argument of \<open>translateRealLocationToDebuggerLocation\<close>.\<close>

record Location =
  loc_line :: "int option"
  loc_endLine :: "int option"
  loc_breakpoints :: "SourceBreakpoint list option"

section \<open>JavaScript operators\<close>

text \<open>
  The integer that the double nearest to an integer holds (IEEE 754 binary64, round to
  nearest, ties to even). Integers of magnitude up to \<open>2^53\<close> are doubles; beyond, a
  double has 53 significant bits, so the integer is rounded to a multiple of
  \<open>2 ^ (bitlen |x| - 53)\<close>. The model covers finite numbers: magnitudes below \<open>2^1023\<close>,
  whose sums and differences do not overflow.
\<close>

definition roundToDouble :: "int \<Rightarrow> int" where
  "roundToDouble x =
     (if \<bar>x\<bar> \<le> 2 ^ 53 then x
      else
        (let q = 2 ^ nat (bitlen \<bar>x\<bar> - 53);
             m = \<bar>x\<bar> div q;
             r = \<bar>x\<bar> mod q
         in sgn x * ((if 2 * r > q \<or> (2 * r = q \<and> odd m) then m + 1 else m) * q)))"

text \<open>\<open>a + b\<close> and \<open>a - b\<close> on numbers that hold integers.\<close>

definition jsAdd :: "int \<Rightarrow> int \<Rightarrow> int" where
  "jsAdd a b = roundToDouble (a + b)"

definition jsSub :: "int \<Rightarrow> int \<Rightarrow> int" where
  "jsSub a b = roundToDouble (a - b)"

text \<open>\<open>Number.isSafeInteger\<close> on a number that holds an integer.\<close>

definition isSafeInteger :: "int \<Rightarrow> bool" where
  "isSafeInteger x = (\<bar>x\<bar> \<le> 2 ^ 53 - 1)"

text \<open>\<open>x || d\<close> on an optional number: \<open>undefined\<close> and \<open>0\<close> are falsy.\<close>

fun num_or :: "int option \<Rightarrow> int \<Rightarrow> int" where
  "num_or None d = d"
| "num_or (Some x) d = (if x = 0 then d else x)"

text \<open>\<open>!s\<close> on an optional string: \<open>undefined\<close> and the empty string are falsy.\<close>

fun str_falsy :: "string option \<Rightarrow> bool" where
  "str_falsy None = True"
| "str_falsy (Some s) = (s = [])"

section \<open>Coordinate translation (interactive-window adapter)\<close>

text \<open>The arithmetic of the two directions: \<open>l + (cell.lineOffset || 0)\<close> and
  \<open>l - (cell.lineOffset || 0)\<close>.\<close>

definition toReal :: "CellDump \<Rightarrow> int \<Rightarrow> int" where
  "toReal cell l = jsAdd l (num_or (Some (lineOffset cell)) 0)"

definition toKernel :: "CellDump \<Rightarrow> int \<Rightarrow> int" where
  "toKernel cell l = jsSub l (num_or (Some (lineOffset cell)) 0)"

text \<open>The three updates at the end of \<open>translateDebuggerFileToRealFile\<close>.\<close>

definition shiftLinesToReal :: "CellDump \<Rightarrow> Lines \<Rightarrow> Lines" where
  "shiftLinesToReal cell ls =
     \<lparr> l_line = map_option (toReal cell) (l_line ls),
       l_endLine = map_option (toReal cell) (l_endLine ls),
       l_lines = map_option (map (toReal cell)) (l_lines ls) \<rparr>"

text \<open>The three updates at the end of \<open>translateRealLocationToDebuggerLocation\<close>.\<close>

definition shiftLocationToKernel :: "CellDump \<Rightarrow> Location \<Rightarrow> Location" where
  "shiftLocationToKernel cell loc =
     \<lparr> loc_line = map_option (toKernel cell) (loc_line loc),
       loc_endLine = map_option (toKernel cell) (loc_endLine loc),
       loc_breakpoints =
         map_option (map (\<lambda>bp. bp\<lparr>sb_line := toKernel cell (sb_line bp)\<rparr>)) (loc_breakpoints loc) \<rparr>"

text \<open>
  \<open>translateDebuggerFileToRealFile(source, lines)\<close>. The method mutates its two arguments
  and returns nothing; the model returns the two arguments as they are after the call.
  \<open>basename\<close> is \<open>path.basename\<close> of the platform library.
\<close>

definition translateDebuggerFileToRealFile ::
  "(string \<Rightarrow> string) \<Rightarrow> CellDump list \<Rightarrow> Source option \<Rightarrow> Lines option
     \<Rightarrow> Source option \<times> Lines option" where
  "translateDebuggerFileToRealFile basename store source lines =
     (case source of
        None \<Rightarrow> (source, lines)
      | Some s \<Rightarrow>
          (case lines of
             None \<Rightarrow> (source, lines)
           | Some ls \<Rightarrow>
               if str_falsy (src_path s) \<or> (l_line ls = None \<and> l_lines ls = None)
               then (source, lines)
               else
                 (case find (\<lambda>item. Some (debugFilePath item) = src_path s) store of
                    None \<Rightarrow> (source, lines)
                  | Some cell \<Rightarrow>
                      (Some (s\<lparr> src_name := Some (basename (uri_path (interactiveWindow cell))),
                               src_path := Some (uri_toString (interactiveWindow cell)) \<rparr>),
                       Some (shiftLinesToReal cell ls)))))"

text \<open>
  \<open>location.line || location.breakpoints![0].line\<close>: when \<open>line\<close> is absent or \<open>0\<close> the
  first breakpoint is read, and reading it from an absent or empty array throws a
  \<open>TypeError\<close>.
\<close>

definition startLineOf :: "Location \<Rightarrow> error + int" where
  "startLineOf loc =
     (if loc_line loc \<noteq> None \<and> loc_line loc \<noteq> Some 0 then Inr (the (loc_line loc))
      else
        (case loc_breakpoints loc of
           None \<Rightarrow> Inl TypeError
         | Some [] \<Rightarrow> Inl TypeError
         | Some (bp # _) \<Rightarrow> Inr (sb_line bp)))"

text \<open>
  The lookup of the owning record by real line,
  \<open>find((item) => startLine >= item.metadata.interactive.lineIndex + 1)\<close>: the first record,
  in the stored (descending) order, whose cell starts before the line.
\<close>

definition cellForStartLine :: "CellDump list \<Rightarrow> int \<Rightarrow> CellDump option" where
  "cellForStartLine store startLine =
     find (\<lambda>item. startLine \<ge> jsAdd (lineIndex (interactive (metadata item))) 1) store"

text \<open>\<open>translateRealLocationToDebuggerLocation(source, location)\<close>, with the same convention.\<close>

definition translateRealLocationToDebuggerLocation ::
  "CellDump list \<Rightarrow> Source option \<Rightarrow> Location option
     \<Rightarrow> error + (Source option \<times> Location option)" where
  "translateRealLocationToDebuggerLocation store source location =
     (case source of
        None \<Rightarrow> Inr (source, location)
      | Some s \<Rightarrow>
          (case location of
             None \<Rightarrow> Inr (source, location)
           | Some loc \<Rightarrow>
               if str_falsy (src_path s) \<or> (loc_line loc = None \<and> loc_breakpoints loc = None)
               then Inr (source, location)
               else
                 (case startLineOf loc of
                    Inl e \<Rightarrow> Inl e
                  | Inr startLine \<Rightarrow>
                      (case cellForStartLine store startLine of
                         None \<Rightarrow> Inr (source, location)
                       | Some cell \<Rightarrow>
                           if Some (uri_path (interactiveWindow cell)) \<noteq> src_path s
                           then Inr (source, location)
                           else Inr (Some (s\<lparr> src_path := Some (debugFilePath cell) \<rparr>),
                                     Some (shiftLocationToKernel cell loc))))))"

section \<open>Lines in the safe range\<close>

text \<open>
  The side condition under which the line arithmetic is exact for a record: the line and
  its two translations are safe integers.
\<close>

definition safeLine :: "CellDump \<Rightarrow> int \<Rightarrow> bool" where
  "safeLine cell l =
     (isSafeInteger l \<and> isSafeInteger (l + lineOffset cell) \<and> isSafeInteger (l - lineOffset cell))"

text \<open>The line numbers that a location and a \<open>lines\<close> argument carry.\<close>

definition locationLines :: "Location \<Rightarrow> int list" where
  "locationLines loc =
     (case loc_line loc of None \<Rightarrow> [] | Some x \<Rightarrow> [x])
     @ (case loc_endLine loc of None \<Rightarrow> [] | Some x \<Rightarrow> [x])
     @ (case loc_breakpoints loc of None \<Rightarrow> [] | Some bps \<Rightarrow> map sb_line bps)"

definition linesLines :: "Lines \<Rightarrow> int list" where
  "linesLines ls =
     (case l_line ls of None \<Rightarrow> [] | Some x \<Rightarrow> [x])
     @ (case l_endLine ls of None \<Rightarrow> [] | Some x \<Rightarrow> [x])
     @ (case l_lines ls of None \<Rightarrow> [] | Some xs \<Rightarrow> xs)"

section \<open>Dumping cells\<close>

text \<open>
  What \<open>dumpCell\<close> reads of \<open>this.notebookDocument.cellAt(index)\<close>: the cell's index, the
  text of its document, the document's uri and the result of
  \<open>getInteractiveCellMetadata(cell)\<close>, which is \<open>undefined\<close> for a cell that does not belong
  to an interactive window.
\<close>

record NotebookCell =
  cell_index :: int
  cell_text :: string
  cell_uri :: Uri
  cell_metadata :: "InteractiveCellMetadata option"

record IDumpCellResponse =
  sourcePath :: string

text \<open>What \<open>traceError\<close> was called with.\<close>

datatype traceEntry =
    FailedToDumpCell int string error
  | TraceError error

text \<open>
  The state of the interactive-window adapter that \<open>dumpCell\<close> changes. \<open>fileToCell\<close> is a
  JavaScript \<open>Map\<close>: an association list in insertion order, where setting an existing key
  replaces its value in place.
\<close>

record IWAdapter =
  fileToCell :: "(string \<times> Uri) list"
  cellToDebugFileSortedInReverseOrderByLineNumber :: "CellDump list"
  traceLog :: "traceEntry list"

definition initialIWAdapter :: IWAdapter where
  "initialIWAdapter =
     \<lparr> fileToCell = [], cellToDebugFileSortedInReverseOrderByLineNumber = [], traceLog = [] \<rparr>"

text \<open>\<open>s.replace(/\r\n/g, '\n')\<close>.\<close>

fun replaceCRLF :: "string \<Rightarrow> string" where
  "replaceCRLF (a # b # cs) =
     (if a = CHR 0x0D \<and> b = CHR 0x0A then CHR 0x0A # replaceCRLF cs
      else a # replaceCRLF (b # cs))"
| "replaceCRLF cs = cs"

text \<open>\<open>metadata.generatedCode?.code || cell.document.getText()\<close>, newline-normalised.\<close>

definition codeOfCell :: "InteractiveCellMetadata \<Rightarrow> NotebookCell \<Rightarrow> string" where
  "codeOfCell md cell =
     replaceCRLF
       (case generatedCode md of
          None \<Rightarrow> cell_text cell
        | Some g \<Rightarrow> if gc_code g \<noteq> [] then gc_code g else cell_text cell)"

text \<open>The record that a successful dump pushes.\<close>

definition newCellDump ::
  "(string \<Rightarrow> Uri) \<Rightarrow> string \<Rightarrow> InteractiveCellMetadata \<Rightarrow> CellDump" where
  "newCellDump Uri_parse normed md =
     (let numberOfStrippedLines =
            (case generatedCode md of
               None \<Rightarrow> 0
             | Some g \<Rightarrow> if \<not> hasCellMarker g then firstNonBlankLineIndex g else 0)
      in \<lparr> debugFilePath = normed,
           interactiveWindow = Uri_parse (uristring (interactive md)),
           lineOffset =
             jsAdd (jsAdd numberOfStrippedLines (lineIndex (interactive md)))
               (num_or (map_option lineOffsetRelativeToIndexOfFirstLineInCell (generatedCode md)) 0),
           metadata = md \<rparr>)"

text \<open>
  \<open>array.sort((a, b) => b.metadata.interactive.lineIndex - a.metadata.interactive.lineIndex)\<close>:
  a stable sort by descending \<open>lineIndex\<close>. The comparator's difference is rounded, and
  rounding keeps its sign and keeps it from zero, so the order is that of the indices.
\<close>

definition sortInReverseOrder :: "CellDump list \<Rightarrow> CellDump list" where
  "sortInReverseOrder xs = sort_key (\<lambda>c. - lineIndex (interactive (metadata c))) xs"

text \<open>
  \<open>dumpCell\<close> of the interactive-window adapter. \<open>path_normalize\<close> is \<open>path.normalize\<close> and
  \<open>Uri_parse\<close> is \<open>Uri.parse\<close>, both of the platform and taken as total;
  \<open>customRequest\<close> is the outcome of
  \<open>await this.session.customRequest('dumpCell', { code })\<close> as a function of the code sent,
  \<open>Inl\<close> when the promise rejects, which the \<open>catch\<close> block logs. The cell is the one that
  \<open>this.notebookDocument.cellAt(index)\<close> returns. The result is \<open>Inl\<close> when the method
  throws and the new state of the adapter otherwise.
\<close>

definition dumpCell ::
  "(string \<Rightarrow> string) \<Rightarrow> (string \<Rightarrow> Uri) \<Rightarrow> (string \<Rightarrow> error + IDumpCellResponse)
     \<Rightarrow> IWAdapter \<Rightarrow> NotebookCell \<Rightarrow> error + IWAdapter" where
  "dumpCell path_normalize Uri_parse customRequest this cell =
     (case cell_metadata cell of
        None \<Rightarrow> Inl (Error ''Not an interactive window cell'')
      | Some md \<Rightarrow>
          (case customRequest (codeOfCell md cell) of
             Inl err \<Rightarrow>
               Inr (this\<lparr> traceLog := traceLog this
                      @ [FailedToDumpCell (cell_index cell) (originalSource (interactive md)) err] \<rparr>)
           | Inr response \<Rightarrow>
               (let normed = path_normalize (sourcePath response)
                in Inr (this\<lparr>
                     fileToCell :=
                       AList.update normed (Uri_parse (uristring (interactive md))) (fileToCell this),
                     cellToDebugFileSortedInReverseOrderByLineNumber :=
                       sortInReverseOrder
                         (cellToDebugFileSortedInReverseOrderByLineNumber this
                          @ [newCellDump Uri_parse normed md]) \<rparr>))))"

definition getDumpFilesForDeletion :: "IWAdapter \<Rightarrow> string list" where
  "getDumpFilesForDeletion this =
     map debugFilePath (cellToDebugFileSortedInReverseOrderByLineNumber this)"

text \<open>
  A sequence of \<open>dumpCell\<close> calls, each with the cell it dumps and the kernel's behaviour at
  that call. A call that throws leaves the adapter as it was.
\<close>

fun dumpCells ::
  "(string \<Rightarrow> string) \<Rightarrow> (string \<Rightarrow> Uri) \<Rightarrow> IWAdapter
     \<Rightarrow> (NotebookCell \<times> (string \<Rightarrow> error + IDumpCellResponse)) list \<Rightarrow> IWAdapter" where
  "dumpCells path_normalize Uri_parse this [] = this"
| "dumpCells path_normalize Uri_parse this ((cell, customRequest) # ops) =
     (case dumpCell path_normalize Uri_parse customRequest this cell of
        Inl _ \<Rightarrow> dumpCells path_normalize Uri_parse this ops
      | Inr this' \<Rightarrow> dumpCells path_normalize Uri_parse this' ops)"

text \<open>The normalised paths of the calls that push a record, in call order.\<close>

fun dumpedPaths ::
  "(string \<Rightarrow> string) \<Rightarrow> (NotebookCell \<times> (string \<Rightarrow> error + IDumpCellResponse)) list
     \<Rightarrow> string list" where
  "dumpedPaths path_normalize [] = []"
| "dumpedPaths path_normalize ((cell, customRequest) # ops) =
     (case cell_metadata cell of
        None \<Rightarrow> dumpedPaths path_normalize ops
      | Some md \<Rightarrow>
          (case customRequest (codeOfCell md cell) of
             Inl _ \<Rightarrow> dumpedPaths path_normalize ops
           | Inr response \<Rightarrow> path_normalize (sourcePath response) # dumpedPaths path_normalize ops))"

text \<open>The records that these calls push, in call order.\<close>

fun dumpedRecords ::
  "(string \<Rightarrow> string) \<Rightarrow> (string \<Rightarrow> Uri)
     \<Rightarrow> (NotebookCell \<times> (string \<Rightarrow> error + IDumpCellResponse)) list \<Rightarrow> CellDump list" where
  "dumpedRecords path_normalize Uri_parse [] = []"
| "dumpedRecords path_normalize Uri_parse ((cell, customRequest) # ops) =
     (case cell_metadata cell of
        None \<Rightarrow> dumpedRecords path_normalize Uri_parse ops
      | Some md \<Rightarrow>
          (case customRequest (codeOfCell md cell) of
             Inl _ \<Rightarrow> dumpedRecords path_normalize Uri_parse ops
           | Inr response \<Rightarrow>
               newCellDump Uri_parse (path_normalize (sourcePath response)) md
               # dumpedRecords path_normalize Uri_parse ops))"

section \<open>The notebook adapter\<close>

text \<open>
  The adapter of \<open>src/notebooks/debugger/kernelDebugAdapter.ts\<close> keeps a \<open>Map\<close> from the
  cell's uri string to the dumped path.
\<close>

record NotebookAdapter =
  nb_fileToCell :: "(string \<times> Uri) list"
  cellToFile :: "(string \<times> string) list"
  nb_traceLog :: "traceEntry list"

definition initialNotebookAdapter :: NotebookAdapter where
  "initialNotebookAdapter = \<lparr> nb_fileToCell = [], cellToFile = [], nb_traceLog = [] \<rparr>"

definition dumpCell_notebook ::
  "(string \<Rightarrow> string) \<Rightarrow> (string \<Rightarrow> error + IDumpCellResponse)
     \<Rightarrow> NotebookAdapter \<Rightarrow> NotebookCell \<Rightarrow> NotebookAdapter" where
  "dumpCell_notebook path_normalize customRequest this cell =
     (case customRequest (replaceCRLF (cell_text cell)) of
        Inl err \<Rightarrow> this\<lparr> nb_traceLog := nb_traceLog this @ [TraceError err] \<rparr>
      | Inr response \<Rightarrow>
          (let normed = path_normalize (sourcePath response)
           in this\<lparr>
                nb_fileToCell := AList.update normed (cell_uri cell) (nb_fileToCell this),
                cellToFile := AList.update (uri_toString (cell_uri cell)) normed (cellToFile this) \<rparr>))"

definition translateRealLocationToDebuggerLocation_notebook ::
  "NotebookAdapter \<Rightarrow> Source option \<Rightarrow> Source option" where
  "translateRealLocationToDebuggerLocation_notebook this source =
     (case source of
        None \<Rightarrow> source
      | Some s \<Rightarrow>
          (case src_path s of
             None \<Rightarrow> source
           | Some p \<Rightarrow>
               if p = [] then source
               else
                 (case map_of (cellToFile this) p of
                    None \<Rightarrow> source
                  | Some mapping \<Rightarrow>
                      if mapping = [] then source else Some (s\<lparr> src_path := Some mapping \<rparr>))))"

definition getDumpFilesForDeletion_notebook :: "NotebookAdapter \<Rightarrow> string list" where
  "getDumpFilesForDeletion_notebook this = map snd (cellToFile this)"

fun dumpCells_notebook ::
  "(string \<Rightarrow> string) \<Rightarrow> NotebookAdapter
     \<Rightarrow> (NotebookCell \<times> (string \<Rightarrow> error + IDumpCellResponse)) list \<Rightarrow> NotebookAdapter" where
  "dumpCells_notebook path_normalize this [] = this"
| "dumpCells_notebook path_normalize this ((cell, customRequest) # ops) =
     dumpCells_notebook path_normalize (dumpCell_notebook path_normalize customRequest this cell) ops"

text \<open>The successful dumps of a sequence: the key of the cell and the normalised path.\<close>

fun dumpedEntries_notebook ::
  "(string \<Rightarrow> string) \<Rightarrow> (NotebookCell \<times> (string \<Rightarrow> error + IDumpCellResponse)) list
     \<Rightarrow> (string \<times> string) list" where
  "dumpedEntries_notebook path_normalize [] = []"
| "dumpedEntries_notebook path_normalize ((cell, customRequest) # ops) =
     (case customRequest (replaceCRLF (cell_text cell)) of
        Inl _ \<Rightarrow> dumpedEntries_notebook path_normalize ops
      | Inr response \<Rightarrow>
          (uri_toString (cell_uri cell), path_normalize (sourcePath response))
          # dumpedEntries_notebook path_normalize ops)"

section \<open>Requests and responses\<close>

record SetBreakpointsArguments =
  args_source :: Source
  args_breakpoints :: "SourceBreakpoint list option"

record Request =
  req_seq :: int
  command :: string
  arguments :: SetBreakpointsArguments

text \<open>An element of a response's \<open>body.breakpoints\<close>.\<close>

record Breakpoint =
  verified :: bool
  bk_source :: "Source option"
  bk_line :: "int option"
  bk_endLine :: "int option"
  bk_column :: "int option"
  bk_condition :: "string option"

record ResponseBody =
  breakpoints :: "Breakpoint list option"

record Response =
  resp_success :: "bool option"
  resp_command :: "string option"
  body :: "ResponseBody option"

record PydevdSourceMap =
  sm_endLine :: int
  sm_line :: int
  runtimeLine :: int
  runtimeSource_path :: string

record ISourceMapRequest =
  smr_source_path :: "string option"
  pydevdSourceMaps :: "PydevdSourceMap list"

text \<open>What the adapter sends: a custom request of the debug session, or a request handed to
  \<open>super.sendRequestToJupyterSession2\<close>.\<close>

datatype outbound =
    CustomRequest string ISourceMapRequest
  | SuperSendRequest Request

text \<open>An element of \<open>setBreakpointsRequests\<close>: the promise of a sub-request handed to the
  base class, or an already resolved response.\<close>

datatype pending =
    SubRequest Request
  | Resolved Response

section \<open>The breakpoint partitioner\<close>

text \<open>\<open>find((item) => item.metadata.interactive.lineIndex + 1 <= bp.line)\<close>.\<close>

definition cellForBp :: "CellDump list \<Rightarrow> SourceBreakpoint \<Rightarrow> CellDump option" where
  "cellForBp store bp =
     find (\<lambda>item. jsAdd (lineIndex (interactive (metadata item))) 1 \<le> sb_line bp) store"

text \<open>\<open>{ ...bp, ...{ verified: true } }\<close>.\<close>

definition fakeBreakpoint :: "SourceBreakpoint \<Rightarrow> Breakpoint" where
  "fakeBreakpoint bp =
     \<lparr> verified = True, bk_source = None, bk_line = Some (sb_line bp), bk_endLine = None,
       bk_column = sb_column bp, bk_condition = sb_condition bp \<rparr>"

text \<open>\<open>{ body: { breakpoints: [fakeBreakpoint] } }\<close>.\<close>

definition fakeResponse :: "SourceBreakpoint \<Rightarrow> Response" where
  "fakeResponse bp =
     \<lparr> resp_success = None, resp_command = None,
       body = Some \<lparr> breakpoints = Some [fakeBreakpoint bp] \<rparr> \<rparr>"

text \<open>
  \<open>sendIfNeeded\<close>: a clone of the request with the current group as its breakpoints,
  handed to the base class when the group is not empty. The group holds the breakpoint
  objects of the incoming request themselves; each of them is in one group only and is
  read by the loop before it enters its group, so what the base class does to them later
  does not change what the loop sends.
\<close>

definition sendIfNeeded :: "Request \<Rightarrow> SourceBreakpoint list \<Rightarrow> pending list \<Rightarrow> pending list" where
  "sendIfNeeded request currentCellBps setBreakpointsRequests =
     (if currentCellBps \<noteq> []
      then setBreakpointsRequests
           @ [SubRequest (request\<lparr> arguments :=
                (arguments request)\<lparr> args_breakpoints := Some currentCellBps \<rparr> \<rparr>)]
      else setBreakpointsRequests)"

text \<open>The \<open>for\<close> loop over the request's breakpoints; the state is
  \<open>(currentCellLine, currentCellBps, setBreakpointsRequests)\<close>.\<close>

fun partitionLoop ::
  "CellDump list \<Rightarrow> Request \<Rightarrow> SourceBreakpoint list
     \<Rightarrow> int option \<times> SourceBreakpoint list \<times> pending list
     \<Rightarrow> int option \<times> SourceBreakpoint list \<times> pending list" where
  "partitionLoop store request [] st = st"
| "partitionLoop store request (bp # bps) (currentCellLine, currentCellBps, reqs) =
     (case map_option lineOffset (cellForBp store bp) of
        Some cellLineForBp \<Rightarrow>
          if Some cellLineForBp \<noteq> currentCellLine
          then partitionLoop store request bps
                 (Some cellLineForBp, [bp], sendIfNeeded request currentCellBps reqs)
          else partitionLoop store request bps (currentCellLine, currentCellBps @ [bp], reqs)
      | None \<Rightarrow>
          partitionLoop store request bps
            (currentCellLine, currentCellBps, reqs @ [Resolved (fakeResponse bp)]))"

text \<open>\<open>request.arguments.breakpoints ?? []\<close>.\<close>

definition requestBreakpoints :: "Request \<Rightarrow> SourceBreakpoint list" where
  "requestBreakpoints request =
     (case args_breakpoints (arguments request) of None \<Rightarrow> [] | Some bps \<Rightarrow> bps)"

text \<open>The loop over the request's breakpoints and the final \<open>sendIfNeeded()\<close>.\<close>

definition partitionBreakpoints :: "CellDump list \<Rightarrow> Request \<Rightarrow> pending list" where
  "partitionBreakpoints store request =
     (case partitionLoop store request (requestBreakpoints request) (None, [], []) of
        (currentCellLine, currentCellBps, reqs) \<Rightarrow> sendIfNeeded request currentCellBps reqs)"

text \<open>The sub-requests among the pending promises, and the resolved responses among them.\<close>

fun subRequests :: "pending list \<Rightarrow> Request list" where
  "subRequests [] = []"
| "subRequests (SubRequest r # ps) = r # subRequests ps"
| "subRequests (Resolved _ # ps) = subRequests ps"

fun resolvedResponses :: "pending list \<Rightarrow> Response list" where
  "resolvedResponses [] = []"
| "resolvedResponses (SubRequest _ # ps) = resolvedResponses ps"
| "resolvedResponses (Resolved r # ps) = r # resolvedResponses ps"

text \<open>What a pending promise settles to; \<open>super\<close> is the base class's
  \<open>sendRequestToJupyterSession2\<close>.\<close>

fun settle :: "(Request \<Rightarrow> error + Response) \<Rightarrow> pending \<Rightarrow> error + Response" where
  "settle super (SubRequest r) = super r"
| "settle super (Resolved r) = Inr r"

text \<open>\<open>await Promise.all(promises)\<close>: all the values in order, or a rejection when one of the
  promises rejects (the first in the list, where the runtime takes the first in time).\<close>

fun promiseAll :: "(error + 'a) list \<Rightarrow> error + 'a list" where
  "promiseAll [] = Inr []"
| "promiseAll (Inl e # rs) = Inl e"
| "promiseAll (Inr x # rs) = (case promiseAll rs of Inl e \<Rightarrow> Inl e | Inr xs \<Rightarrow> Inr (x # xs))"

text \<open>
  One step of \<open>responses.slice(1).forEach(...)\<close>:
  \<open>newResponse.body.breakpoints = newResponse.body.breakpoints.concat(response.body.breakpoints ?? [])\<close>.
  Reading a property of an absent \<open>body\<close>, or calling \<open>concat\<close> on an absent array, throws.
\<close>

definition mergeStep :: "Response \<Rightarrow> Response \<Rightarrow> error + Response" where
  "mergeStep newResponse response =
     (case body newResponse of
        None \<Rightarrow> Inl TypeError
      | Some nb \<Rightarrow>
          (case breakpoints nb of
             None \<Rightarrow> Inl TypeError
           | Some xs \<Rightarrow>
               (case body response of
                  None \<Rightarrow> Inl TypeError
                | Some rb \<Rightarrow>
                    Inr (newResponse\<lparr> body := Some (nb\<lparr> breakpoints :=
                           Some (xs @ (case breakpoints rb of None \<Rightarrow> [] | Some ys \<Rightarrow> ys)) \<rparr>) \<rparr>))))"

fun mergeFrom :: "Response \<Rightarrow> Response list \<Rightarrow> error + Response" where
  "mergeFrom newResponse [] = Inr newResponse"
| "mergeFrom newResponse (r # rs) =
     (case mergeStep newResponse r of Inl e \<Rightarrow> Inl e | Inr n \<Rightarrow> mergeFrom n rs)"

text \<open>
  \<open>JSON.parse(JSON.stringify(responses[0]))\<close> followed by the merge of the rest. With no
  response, \<open>JSON.stringify(undefined)\<close> is \<open>undefined\<close> and \<open>JSON.parse\<close> throws a
  \<open>SyntaxError\<close>.
\<close>

fun mergeResponses :: "Response list \<Rightarrow> error + Response" where
  "mergeResponses [] = Inl SyntaxError"
| "mergeResponses (r # rs) = mergeFrom r rs"

text \<open>\<open>this.cellToDebugFileSortedInReverseOrderByLineNumber[0]?.interactiveWindow.path\<close>.\<close>

definition firstInteractiveWindowPath :: "CellDump list \<Rightarrow> string option" where
  "firstInteractiveWindowPath store =
     (case store of [] \<Rightarrow> None | c # _ \<Rightarrow> Some (uri_path (interactiveWindow c)))"

text \<open>The request of the \<open>setPydevdSourceMap\<close> custom request.\<close>

definition sourceMapRequestFor :: "Request \<Rightarrow> string \<Rightarrow> ISourceMapRequest" where
  "sourceMapRequestFor request runtimeSource =
     \<lparr> smr_source_path = src_path (args_source (arguments request)),
       pydevdSourceMaps =
         [\<lparr> sm_endLine = 3, sm_line = 1, runtimeLine = 2,
            runtimeSource_path = ''/private'' @ runtimeSource \<rparr>] \<rparr>"

text \<open>
  \<open>sendRequestToJupyterSession2\<close> of the interactive-window adapter. \<open>customRequest\<close> is the
  outcome of \<open>await this.session.customRequest(name, request)\<close> and \<open>super\<close> the base
  class's method. The result is the list of what was sent, in order, and the value the
  returned promise settles to (\<open>Inl\<close> when it rejects).
\<close>

definition sendRequestToJupyterSession2 ::
  "(string \<Rightarrow> ISourceMapRequest \<Rightarrow> error + unit) \<Rightarrow> (Request \<Rightarrow> error + Response)
     \<Rightarrow> CellDump list \<Rightarrow> Request \<Rightarrow> outbound list \<times> (error + Response)" where
  "sendRequestToJupyterSession2 customRequest super store request =
     (if command request = ''setBreakpoints'' then
        (case store of
           [] \<Rightarrow> ([], Inl TypeError)
         | first_cell # _ \<Rightarrow>
             (let sourceMapRequest = sourceMapRequestFor request (debugFilePath first_cell)
              in case customRequest ''setPydevdSourceMap'' sourceMapRequest of
                   Inl e \<Rightarrow> ([CustomRequest ''setPydevdSourceMap'' sourceMapRequest], Inl e)
                 | Inr _ \<Rightarrow>
                     ([CustomRequest ''setPydevdSourceMap'' sourceMapRequest,
                       SuperSendRequest request],
                      super request)))
      else if command request = ''2setBreakpoints'' then
        (if firstInteractiveWindowPath store \<noteq> src_path (args_source (arguments request))
         then ([SuperSendRequest request], super request)
         else
           (let setBreakpointsRequests = partitionBreakpoints store request
            in (map SuperSendRequest (subRequests setBreakpointsRequests),
                case promiseAll (map (settle super) setBreakpointsRequests) of
                  Inl e \<Rightarrow> Inl e
                | Inr responses \<Rightarrow> mergeResponses responses)))
      else ([SuperSendRequest request], super request))"

section \<open>The pass-through channel of the base class\<close>

text \<open>The breakpoints of a response, empty when the body or the array is absent.\<close>

definition responseBreakpoints :: "Response \<Rightarrow> Breakpoint list" where
  "responseBreakpoints r =
     (case body r of
        None \<Rightarrow> []
      | Some b \<Rightarrow> (case breakpoints b of None \<Rightarrow> [] | Some xs \<Rightarrow> xs))"

text \<open>
  Modelled from the spec: \<open>KernelDebugAdapterBase.sendRequestToJupyterSession2\<close>, the method
  the adapter calls as \<open>super.sendRequestToJupyterSession2\<close>, is not among the sources. The
  spec (4.4) says of a request with a source field: translate path and line fields using
  the matching record, forward, untranslate the response. \<open>passThroughRequest\<close> is the
  request as the kernel receives it: the source and the breakpoints of the arguments
  after \<open>translateRealLocationToDebuggerLocation\<close>.
\<close>

definition passThroughRequest :: "CellDump list \<Rightarrow> Request \<Rightarrow> error + Request" where
  "passThroughRequest store request =
     (case translateRealLocationToDebuggerLocation store
             (Some (args_source (arguments request)))
             (Some \<lparr> loc_line = None, loc_endLine = None,
                     loc_breakpoints = args_breakpoints (arguments request) \<rparr>) of
        Inl e \<Rightarrow> Inl e
      | Inr (source', location') \<Rightarrow>
          Inr (request\<lparr> arguments :=
                 \<lparr> args_source =
                     (case source' of None \<Rightarrow> args_source (arguments request) | Some s \<Rightarrow> s),
                   args_breakpoints =
                     (case location' of
                        None \<Rightarrow> args_breakpoints (arguments request)
                      | Some l \<Rightarrow> loc_breakpoints l) \<rparr> \<rparr>))"

text \<open>
  Modelled from the spec: the untranslation of a response of the kernel (4.4, server to
  client): a breakpoint whose source path is a known \<open>debugFilePath\<close> gets the path of the
  real file and its line fields translated with \<open>translateDebuggerFileToRealFile\<close>.
\<close>

definition untranslateBreakpoint ::
  "(string \<Rightarrow> string) \<Rightarrow> CellDump list \<Rightarrow> Breakpoint \<Rightarrow> Breakpoint" where
  "untranslateBreakpoint basename store bk =
     (case translateDebuggerFileToRealFile basename store (bk_source bk)
             (Some \<lparr> l_line = bk_line bk, l_endLine = bk_endLine bk, l_lines = None \<rparr>) of
        (source', None) \<Rightarrow> bk\<lparr> bk_source := source' \<rparr>
      | (source', Some ls) \<Rightarrow>
          bk\<lparr> bk_source := source', bk_line := l_line ls, bk_endLine := l_endLine ls \<rparr>)"

definition untranslateResponse ::
  "(string \<Rightarrow> string) \<Rightarrow> CellDump list \<Rightarrow> Response \<Rightarrow> Response" where
  "untranslateResponse basename store r =
     r\<lparr> body :=
          map_option
            (\<lambda>b. b\<lparr> breakpoints :=
                   map_option (map (untranslateBreakpoint basename store)) (breakpoints b) \<rparr>)
            (body r) \<rparr>"

text \<open>
  Modelled from the spec: the pass-through channel as a whole (4.4): translate, forward to
  the kernel, untranslate the response. \<open>kernelAnswer\<close> is the kernel's answer to a request.
\<close>

definition passThrough ::
  "(string \<Rightarrow> string) \<Rightarrow> (Request \<Rightarrow> error + Response) \<Rightarrow> CellDump list
     \<Rightarrow> Request \<Rightarrow> error + Response" where
  "passThrough basename kernelAnswer store request =
     (case passThroughRequest store request of
        Inl e \<Rightarrow> Inl e
      | Inr kernelRequest \<Rightarrow>
          (case kernelAnswer kernelRequest of
             Inl e \<Rightarrow> Inl e
           | Inr r \<Rightarrow> Inr (untranslateResponse basename store r)))"

section \<open>Example data\<close>

text \<open>Concrete cells, records and kernels, used to run the definitions on inputs.\<close>

definition exampleUri :: Uri where
  "exampleUri = \<lparr> uri_path = ''/work/file.py'', uri_toString = ''file:///work/file.py'' \<rparr>"

text \<open>The metadata of an interactive cell that starts at line index \<open>li\<close> of the file, with
  \<open>stripped\<close> leading blank lines and no cell marker.\<close>

definition exampleMetadata :: "int \<Rightarrow> int \<Rightarrow> InteractiveCellMetadata" where
  "exampleMetadata li stripped =
     \<lparr> interactive =
         \<lparr> uristring = ''file:///work/file.py'', lineIndex = li, originalSource = ''pass'' \<rparr>,
       generatedCode =
         Some \<lparr> gc_code = ''pass'', hasCellMarker = False, firstNonBlankLineIndex = stripped,
                lineOffsetRelativeToIndexOfFirstLineInCell = 0 \<rparr> \<rparr>"

definition exampleCell :: "int \<Rightarrow> int \<Rightarrow> int \<Rightarrow> NotebookCell" where
  "exampleCell i li stripped =
     \<lparr> cell_index = i, cell_text = ''pass'',
       cell_uri = \<lparr> uri_path = ''/cell'', uri_toString = ''vscode-notebook-cell:/cell'' \<rparr>,
       cell_metadata = Some (exampleMetadata li stripped) \<rparr>"

text \<open>A kernel that dumps to the given path, and one whose \<open>dumpCell\<close> request rejects.\<close>

definition kernelDumpsTo :: "string \<Rightarrow> string \<Rightarrow> error + IDumpCellResponse" where
  "kernelDumpsTo p code = Inr \<lparr> sourcePath = p \<rparr>"

definition kernelRejects :: "string \<Rightarrow> error + IDumpCellResponse" where
  "kernelRejects code = Inl (Rejected ''dumpCell failed'')"

definition exampleParse :: "string \<Rightarrow> Uri" where
  "exampleParse s = \<lparr> uri_path = drop 7 s, uri_toString = s \<rparr>"

definition lineBreakpoint :: "int \<Rightarrow> SourceBreakpoint" where
  "lineBreakpoint l = \<lparr> sb_line = l, sb_column = None, sb_condition = None \<rparr>"

definition exampleRequest :: "string \<Rightarrow> int list \<Rightarrow> Request" where
  "exampleRequest c ls =
     \<lparr> req_seq = 7, command = c,
       arguments =
         \<lparr> args_source = \<lparr> src_name = Some ''file.py'', src_path = Some ''/work/file.py'' \<rparr>,
           args_breakpoints = Some (map lineBreakpoint ls) \<rparr> \<rparr>"

text \<open>A kernel that answers a request with one verified breakpoint for each breakpoint
  of the request, at the requested line of the requested source.\<close>

definition exampleKernel :: "Request \<Rightarrow> error + Response" where
  "exampleKernel r =
     Inr \<lparr> resp_success = Some True, resp_command = Some (command r),
           body = Some \<lparr> breakpoints = Some
             (map (\<lambda>bp. \<lparr> verified = True, bk_source = Some (args_source (arguments r)),
                          bk_line = Some (sb_line bp), bk_endLine = None,
                          bk_column = sb_column bp, bk_condition = sb_condition bp \<rparr>)
                  (case args_breakpoints (arguments r) of None \<Rightarrow> [] | Some bps \<Rightarrow> bps)) \<rparr> \<rparr>"

definition customRequestResolves :: "string \<Rightarrow> ISourceMapRequest \<Rightarrow> error + unit" where
  "customRequestResolves name r = Inr ()"

text \<open>The store after dumping a cell at line index 0 (offset 10, file \<open>/tmp/a.py\<close>) and a cell at
  line index 15 (offset 100, file \<open>/tmp/b.py\<close>) of the same file.\<close>

definition exampleStore :: "CellDump list" where
  "exampleStore =
     cellToDebugFileSortedInReverseOrderByLineNumber
       (dumpCells id exampleParse initialIWAdapter
          [(exampleCell 0 0 10, kernelDumpsTo ''/tmp/a.py''),
           (exampleCell 1 15 85, kernelDumpsTo ''/tmp/b.py'')])"

text \<open>The store after dumping cells at line indices 20, 50 and 5, in this order.\<close>

definition exampleSortKeyStore :: "CellDump list" where
  "exampleSortKeyStore =
     cellToDebugFileSortedInReverseOrderByLineNumber
       (dumpCells id exampleParse initialIWAdapter
          [(exampleCell 0 20 0, kernelDumpsTo ''/tmp/c20.py''),
           (exampleCell 1 50 0, kernelDumpsTo ''/tmp/c50.py''),
           (exampleCell 2 5 0, kernelDumpsTo ''/tmp/c5.py'')])"

text \<open>A cell of a notebook (no interactive-window metadata) with the given uri path and text.\<close>

definition exampleNotebookCell :: "string \<Rightarrow> string \<Rightarrow> NotebookCell" where
  "exampleNotebookCell u t =
     \<lparr> cell_index = 0, cell_text = t,
       cell_uri = \<lparr> uri_path = u, uri_toString = ''vscode-notebook-cell:'' @ u \<rparr>,
       cell_metadata = None \<rparr>"

text \<open>The store after dumping only the cell at line index 15.\<close>

definition exampleLateStore :: "CellDump list" where
  "exampleLateStore =
     cellToDebugFileSortedInReverseOrderByLineNumber
       (dumpCells id exampleParse initialIWAdapter
          [(exampleCell 1 15 85, kernelDumpsTo ''/tmp/b.py'')])"

section \<open>Arithmetic on numbers that hold integers\<close>

lemma roundToDouble_exact:
  assumes "\<bar>x\<bar> \<le> 2 ^ 53"
  shows "roundToDouble x = x"
  using assms by (simp add: roundToDouble_def)

lemma jsAdd_exact [simp]:
  assumes "\<bar>a + b\<bar> \<le> 9007199254740992"
  shows "jsAdd a b = a + b"
  using assms by (simp add: jsAdd_def roundToDouble_def)

lemma jsSub_exact [simp]:
  assumes "\<bar>a - b\<bar> \<le> 9007199254740992"
  shows "jsSub a b = a - b"
  using assms by (simp add: jsSub_def roundToDouble_def)

text \<open>Rounding does not change the sign.\<close>

lemma roundToDouble_nonpos:
  assumes "x \<le> 0"
  shows "roundToDouble x \<le> 0"
proof (cases "\<bar>x\<bar> \<le> 2 ^ 53")
  case True
  with assms show ?thesis
    by (simp add: roundToDouble_def)
next
  case False
  let ?q = "2 ^ nat (bitlen \<bar>x\<bar> - 53) :: int"
  let ?m = "\<bar>x\<bar> div ?q"
  let ?r = "\<bar>x\<bar> mod ?q"
  have q: "0 < ?q"
    by simp
  then have m: "0 \<le> ?m"
    by (simp add: pos_imp_zdiv_nonneg_iff)
  have "sgn x \<le> 0"
    using assms by (simp add: sgn_if)
  moreover have "0 \<le> (if 2 * ?r > ?q \<or> (2 * ?r = ?q \<and> odd ?m) then ?m + 1 else ?m) * ?q"
    using q m by (simp del: zero_less_power)
  ultimately have
    "sgn x * ((if 2 * ?r > ?q \<or> (2 * ?r = ?q \<and> odd ?m) then ?m + 1 else ?m) * ?q) \<le> 0"
    by (rule mult_nonpos_nonneg)
  then show ?thesis
    unfolding roundToDouble_def Let_def using False by (simp only: if_False)
qed

text \<open>A sum that is at most a small bound stays at most the bound after rounding.\<close>

lemma jsAdd_le:
  assumes "a + b \<le> c" and "0 \<le> c" and "c \<le> 2 ^ 53"
  shows "jsAdd a b \<le> c"
proof (cases "\<bar>a + b\<bar> \<le> 2 ^ 53")
  case True
  with assms(1) show ?thesis
    by (simp add: jsAdd_def roundToDouble_def)
next
  case False
  with assms have "a + b \<le> 0"
    by linarith
  then have "roundToDouble (a + b) \<le> 0"
    by (rule roundToDouble_nonpos)
  with assms(2) show ?thesis
    by (simp add: jsAdd_def)
qed

lemma num_or_zero: "num_or (Some x) 0 = x"
  by simp

section \<open>Round trip of the line arithmetic\<close>

text \<open>
  C1, as stated, fails: the lines are doubles, and not every integer line comes back.
  For a record with offset 1 and the line \<open>2^53\<close>, adding the offset gives \<open>2^53 + 1\<close>,
  which rounds to \<open>2^53\<close>, and subtracting it again gives \<open>2^53 - 1\<close>.
\<close>

theorem C1_round_trip_fails_beyond_safe_integers:
  "lineOffset (newCellDump exampleParse ''/tmp/a.py'' (exampleMetadata 0 1)) = 1
   \<and> toReal (newCellDump exampleParse ''/tmp/a.py'' (exampleMetadata 0 1)) 9007199254740992
       = 9007199254740992
   \<and> toKernel (newCellDump exampleParse ''/tmp/a.py'' (exampleMetadata 0 1))
       (toReal (newCellDump exampleParse ''/tmp/a.py'' (exampleMetadata 0 1)) 9007199254740992)
       = 9007199254740991
   \<and> toKernel (newCellDump exampleParse ''/tmp/a.py'' (exampleMetadata 0 1))
       (toReal (newCellDump exampleParse ''/tmp/a.py'' (exampleMetadata 0 1)) 9007199254740992)
       \<noteq> 9007199254740992"
proof -
  let ?c = "newCellDump exampleParse ''/tmp/a.py'' (exampleMetadata 0 1)"
  have off: "lineOffset ?c = 1"
    by (simp add: newCellDump_def exampleMetadata_def)
  have b: "bitlen 9007199254740993 = 54"
    using bitlen_twopow_add_eq [of 1 53] by simp
  have r: "roundToDouble 9007199254740993 = 9007199254740992"
    by (simp add: roundToDouble_def Let_def b)
  have up: "toReal ?c 9007199254740992 = 9007199254740992"
    by (simp add: toReal_def off jsAdd_def r)
  have down: "toKernel ?c 9007199254740992 = 9007199254740991"
    by (simp add: toKernel_def off)
  show ?thesis
    by (simp add: off up down)
qed

lemma toReal_toKernel:
  assumes "safeLine cell l"
  shows "toReal cell (toKernel cell l) = l"
  using assms by (simp add: toReal_def toKernel_def safeLine_def isSafeInteger_def)

lemma toKernel_toReal:
  assumes "safeLine cell l"
  shows "toKernel cell (toReal cell l) = l"
  using assms by (simp add: toReal_def toKernel_def safeLine_def isSafeInteger_def)

lemma map_option_round:
  assumes "\<And>x. v = Some x \<Longrightarrow> f (g x) = x"
  shows "map_option f (map_option g v) = v"
  using assms by (cases v) simp_all

lemma map_round:
  assumes "\<And>x. x \<in> set xs \<Longrightarrow> f (g x) = x"
  shows "map f (map g xs) = xs"
  using assms by (induction xs) simp_all

lemma locationLines_safe:
  assumes "list_all (safeLine cell) (locationLines loc)"
  shows "\<And>x. loc_line loc = Some x \<Longrightarrow> safeLine cell x"
    and "\<And>x. loc_endLine loc = Some x \<Longrightarrow> safeLine cell x"
    and "\<And>bps bp. loc_breakpoints loc = Some bps \<Longrightarrow> bp \<in> set bps \<Longrightarrow> safeLine cell (sb_line bp)"
  using assms by (auto simp: locationLines_def list_all_iff)

lemma linesLines_safe:
  assumes "list_all (safeLine cell) (linesLines ls)"
  shows "\<And>x. l_line ls = Some x \<Longrightarrow> safeLine cell x"
    and "\<And>x. l_endLine ls = Some x \<Longrightarrow> safeLine cell x"
    and "\<And>xs x. l_lines ls = Some xs \<Longrightarrow> x \<in> set xs \<Longrightarrow> safeLine cell x"
  using assms by (auto simp: linesLines_def list_all_iff)

text \<open>
  C1, amended. For every dump record with line offset \<open>o\<close> and every integer line such
  that the line, \<open>line + o\<close> and \<open>line - o\<close> are safe integers (of magnitude at most
  \<open>2^53 - 1\<close>), the two translation directions are mutually inverse: adding the offset
  after subtracting it, and subtracting after adding, give the line back. This holds
  for the \<open>line\<close> field, the \<open>endLine\<close> field, every element of a \<open>lines\<close> array and every
  breakpoint's \<open>line\<close>, as the two translation methods update them, when the lines they
  carry are in that range.
\<close>

theorem C1_round_trip:
  assumes "safeLine cell l"
    and "list_all (safeLine cell) (locationLines loc)"
    and "list_all (safeLine cell) (linesLines ls)"
  shows "toReal cell (toKernel cell l) = l
   \<and> toKernel cell (toReal cell l) = l
   \<and> l_line (shiftLinesToReal cell
        \<lparr> l_line = loc_line (shiftLocationToKernel cell loc),
          l_endLine = loc_endLine (shiftLocationToKernel cell loc),
          l_lines = None \<rparr>) = loc_line loc
   \<and> l_endLine (shiftLinesToReal cell
        \<lparr> l_line = loc_line (shiftLocationToKernel cell loc),
          l_endLine = loc_endLine (shiftLocationToKernel cell loc),
          l_lines = None \<rparr>) = loc_endLine loc
   \<and> loc_line (shiftLocationToKernel cell
        \<lparr> loc_line = l_line (shiftLinesToReal cell ls),
          loc_endLine = l_endLine (shiftLinesToReal cell ls),
          loc_breakpoints = None \<rparr>) = l_line ls
   \<and> loc_endLine (shiftLocationToKernel cell
        \<lparr> loc_line = l_line (shiftLinesToReal cell ls),
          loc_endLine = l_endLine (shiftLinesToReal cell ls),
          loc_breakpoints = None \<rparr>) = l_endLine ls
   \<and> map_option (map (toKernel cell)) (l_lines (shiftLinesToReal cell ls)) = l_lines ls
   \<and> map_option (map (\<lambda>bp. toReal cell (sb_line bp)))
        (loc_breakpoints (shiftLocationToKernel cell loc))
      = map_option (map sb_line) (loc_breakpoints loc)"
proof -
  note loc = locationLines_safe [OF assms(2)]
  note ls = linesLines_safe [OF assms(3)]
  have a1: "map_option (toReal cell) (map_option (toKernel cell) (loc_line loc)) = loc_line loc"
    by (rule map_option_round) (rule toReal_toKernel, rule loc(1))
  have a2: "map_option (toReal cell) (map_option (toKernel cell) (loc_endLine loc))
            = loc_endLine loc"
    by (rule map_option_round) (rule toReal_toKernel, rule loc(2))
  have b1: "map_option (toKernel cell) (map_option (toReal cell) (l_line ls)) = l_line ls"
    by (rule map_option_round) (rule toKernel_toReal, rule ls(1))
  have b2: "map_option (toKernel cell) (map_option (toReal cell) (l_endLine ls)) = l_endLine ls"
    by (rule map_option_round) (rule toKernel_toReal, rule ls(2))
  have c: "map_option (map (toKernel cell)) (map_option (map (toReal cell)) (l_lines ls))
           = l_lines ls"
  proof (cases "l_lines ls")
    case None
    then show ?thesis by simp
  next
    case (Some xs)
    have "map (toKernel cell) (map (toReal cell) xs) = xs"
      by (rule map_round) (rule toKernel_toReal, rule ls(3) [OF Some])
    with Some show ?thesis by simp
  qed
  have d: "map_option (map (\<lambda>bp. toReal cell (sb_line bp)))
             (map_option (map (\<lambda>bp. bp\<lparr>sb_line := toKernel cell (sb_line bp)\<rparr>))
                (loc_breakpoints loc))
           = map_option (map sb_line) (loc_breakpoints loc)"
  proof (cases "loc_breakpoints loc")
    case None
    then show ?thesis by simp
  next
    case (Some bps)
    have "toReal cell (toKernel cell (sb_line bp)) = sb_line bp" if "bp \<in> set bps" for bp
      by (rule toReal_toKernel) (rule loc(3) [OF Some that])
    then have "map (\<lambda>bp. toReal cell (sb_line bp))
                 (map (\<lambda>bp. bp\<lparr>sb_line := toKernel cell (sb_line bp)\<rparr>) bps)
               = map sb_line bps"
      by simp
    with Some show ?thesis by simp
  qed
  show ?thesis
    by (simp add: shiftLinesToReal_def shiftLocationToKernel_def a1 a2 b1 b2 c d
        toReal_toKernel [OF assms(1)] toKernel_toReal [OF assms(1)])
qed

text \<open>The record of the cell at line index 0 with offset 10, and lines near it.\<close>

theorem C1_round_trip_witness:
  "safeLine (newCellDump exampleParse ''/tmp/a.py'' (exampleMetadata 0 10)) 12
   \<and> toKernel (newCellDump exampleParse ''/tmp/a.py'' (exampleMetadata 0 10)) 12 = 2
   \<and> toReal (newCellDump exampleParse ''/tmp/a.py'' (exampleMetadata 0 10))
       (toKernel (newCellDump exampleParse ''/tmp/a.py'' (exampleMetadata 0 10)) 12) = 12
   \<and> toKernel (newCellDump exampleParse ''/tmp/a.py'' (exampleMetadata 0 10))
       (toReal (newCellDump exampleParse ''/tmp/a.py'' (exampleMetadata 0 10)) 12) = 12
   \<and> map_option (map (toKernel (newCellDump exampleParse ''/tmp/a.py'' (exampleMetadata 0 10))))
       (l_lines (shiftLinesToReal (newCellDump exampleParse ''/tmp/a.py'' (exampleMetadata 0 10))
          \<lparr> l_line = Some 2, l_endLine = Some 4, l_lines = Some [2, 3] \<rparr>))
       = Some [2, 3]
   \<and> map_option (map (\<lambda>bp. toReal (newCellDump exampleParse ''/tmp/a.py'' (exampleMetadata 0 10))
          (sb_line bp)))
       (loc_breakpoints
          (shiftLocationToKernel (newCellDump exampleParse ''/tmp/a.py'' (exampleMetadata 0 10))
             \<lparr> loc_line = Some 12, loc_endLine = Some 14,
               loc_breakpoints = Some [lineBreakpoint 12, lineBreakpoint 13] \<rparr>))
       = Some [12, 13]"
proof -
  let ?c = "newCellDump exampleParse ''/tmp/a.py'' (exampleMetadata 0 10)"
  have off: "lineOffset ?c = 10"
    by (simp add: newCellDump_def exampleMetadata_def)
  have safe: "safeLine ?c x" if "\<bar>x\<bar> \<le> 100" for x
    using that by (simp add: safeLine_def isSafeInteger_def off abs_le_iff)
  have s1: "safeLine ?c 12"
    by (rule safe) simp
  have s2: "list_all (safeLine ?c) (locationLines
      \<lparr> loc_line = Some 12, loc_endLine = Some 14,
        loc_breakpoints = Some [lineBreakpoint 12, lineBreakpoint 13] \<rparr>)"
    by (simp add: locationLines_def lineBreakpoint_def safe)
  have s3: "list_all (safeLine ?c) (linesLines
      \<lparr> l_line = Some 2, l_endLine = Some 4, l_lines = Some [2, 3] \<rparr>)"
    by (simp add: linesLines_def safe)
  have k: "toKernel ?c 12 = 2"
    by (simp add: toKernel_def off)
  show ?thesis
    using C1_round_trip [OF s1 s2 s3] s1 k
    by (simp add: lineBreakpoint_def)
qed

section \<open>Fail-open translation\<close>

lemma translateDebuggerFileToRealFile_unmatched:
  assumes "find (\<lambda>item. Some (debugFilePath item) = src_path s) store = None"
  shows "translateDebuggerFileToRealFile basename store (Some s) lines = (Some s, lines)"
  using assms by (simp add: translateDebuggerFileToRealFile_def split: option.splits)

lemma translateDebuggerFileToRealFile_no_fields:
  assumes "l_line ls = None" and "l_lines ls = None"
  shows "translateDebuggerFileToRealFile basename store source (Some ls) = (source, Some ls)"
  using assms by (simp add: translateDebuggerFileToRealFile_def split: option.splits)

lemma translateDebuggerFileToRealFile_no_source:
  "translateDebuggerFileToRealFile basename store None lines = (None, lines)"
  "translateDebuggerFileToRealFile basename store source None = (source, None)"
  by (simp_all add: translateDebuggerFileToRealFile_def split: option.splits)

lemma cellForStartLine_Some:
  assumes "cellForStartLine store startLine = Some cell"
  shows "cell \<in> set store \<and> jsAdd (lineIndex (interactive (metadata cell))) 1 \<le> startLine"
  using assms unfolding cellForStartLine_def by (auto simp: find_Some_iff)

lemma translateRealLocationToDebuggerLocation_no_fields:
  assumes "loc_line loc = None" and "loc_breakpoints loc = None"
  shows "translateRealLocationToDebuggerLocation store source (Some loc) = Inr (source, Some loc)"
  using assms by (simp add: translateRealLocationToDebuggerLocation_def split: option.splits)

text \<open>When the real-to-kernel translation returns and no record belongs to the source's
  file, it returns its arguments as they were.\<close>

lemma translateRealLocationToDebuggerLocation_unmatched:
  assumes "\<And>c. c \<in> set store \<Longrightarrow> Some (uri_path (interactiveWindow c)) \<noteq> src_path s"
    and "translateRealLocationToDebuggerLocation store (Some s) location = Inr r"
  shows "r = (Some s, location)"
proof (cases location)
  case None
  with assms(2) show ?thesis
    by (simp add: translateRealLocationToDebuggerLocation_def)
next
  case (Some loc)
  show ?thesis
  proof (cases "cellForStartLine store (projr (startLineOf loc))")
    case None
    with assms(2) Some show ?thesis
      by (auto simp: translateRealLocationToDebuggerLocation_def split: if_splits sum.splits)
  next
    case (Some cell)
    then have "cell \<in> set store"
      using cellForStartLine_Some by blast
    then have "Some (uri_path (interactiveWindow cell)) \<noteq> src_path s"
      by (rule assms(1))
    with assms(2) \<open>location = Some loc\<close> Some show ?thesis
      by (auto simp: translateRealLocationToDebuggerLocation_def split: if_splits sum.splits)
  qed
qed

lemma startLineOf_throws:
  "startLineOf loc = Inl e \<longleftrightarrow>
     e = TypeError \<and> (loc_line loc = None \<or> loc_line loc = Some 0)
     \<and> (loc_breakpoints loc = None \<or> loc_breakpoints loc = Some [])"
  by (auto simp: startLineOf_def split: option.splits list.splits)

text \<open>
  C3. The claim: a message whose source path matches no stored dump record is returned
  unchanged by both translations. The kernel-to-real translation does so, and the
  real-to-kernel translation does so whenever it returns; but for a location without a
  \<open>line\<close> whose \<open>breakpoints\<close> array is empty (a request that clears the breakpoints of a
  file) the real-to-kernel translation reads \<open>breakpoints[0].line\<close> before it looks a record
  up, and throws a \<open>TypeError\<close> whatever the store holds.
\<close>

theorem C3_empty_breakpoints_throws:
  "translateRealLocationToDebuggerLocation store
     (Some \<lparr> src_name = n, src_path = Some ''/work/file.py'' \<rparr>)
     (Some \<lparr> loc_line = None, loc_endLine = e, loc_breakpoints = Some [] \<rparr>)
   = Inl TypeError"
  by (simp add: translateRealLocationToDebuggerLocation_def startLineOf_def)

section \<open>Nearest-preceding lookup\<close>

text \<open>
  C5. With the store holding records whose line indices are 50, 20 and 5, in this
  (descending) order, the lookup of the record that owns real line 30 returns the record
  with line index 20, and the lookup for line 3 returns none; this holds for the lookup of
  \<open>translateRealLocationToDebuggerLocation\<close> and for the one of the breakpoint loop.
\<close>

theorem C5_nearest_preceding:
  assumes "lineIndex (interactive (metadata r50)) = 50"
    and "lineIndex (interactive (metadata r20)) = 20"
    and "lineIndex (interactive (metadata r5)) = 5"
  shows "cellForStartLine [r50, r20, r5] 30 = Some r20
       \<and> cellForStartLine [r50, r20, r5] 3 = None
       \<and> cellForBp [r50, r20, r5] (lineBreakpoint 30) = Some r20
       \<and> cellForBp [r50, r20, r5] (lineBreakpoint 3) = None"
  using assms by (simp add: cellForStartLine_def cellForBp_def lineBreakpoint_def)

text \<open>The three records are pushed in the order 20, 50, 5 and sorted by \<open>dumpCell\<close>.\<close>

theorem C5_nearest_preceding_witness:
  "map (\<lambda>c. lineIndex (interactive (metadata c))) exampleSortKeyStore = [50, 20, 5]
   \<and> cellForStartLine exampleSortKeyStore 30 = Some (exampleSortKeyStore ! 1)
   \<and> cellForStartLine exampleSortKeyStore 3 = None
   \<and> cellForBp exampleSortKeyStore (lineBreakpoint 30) = Some (exampleSortKeyStore ! 1)
   \<and> cellForBp exampleSortKeyStore (lineBreakpoint 3) = None"
proof -
  let ?r = "\<lambda>p li. newCellDump exampleParse p (exampleMetadata li 0)"
  have store: "exampleSortKeyStore
      = [?r ''/tmp/c50.py'' 50, ?r ''/tmp/c20.py'' 20, ?r ''/tmp/c5.py'' 5]"
    by (simp add: exampleSortKeyStore_def dumpCell_def exampleCell_def kernelDumpsTo_def
        initialIWAdapter_def sortInReverseOrder_def newCellDump_def exampleMetadata_def
        codeOfCell_def Let_def)
  have li: "lineIndex (interactive (metadata (?r p li))) = li" for p li
    by (simp add: newCellDump_def exampleMetadata_def)
  show ?thesis
    using C5_nearest_preceding [OF li li li, of "''/tmp/c50.py''" "''/tmp/c20.py''" "''/tmp/c5.py''"]
    by (simp add: store li)
qed

section \<open>Dumping: what a call does to the adapter\<close>

lemma dumpCell_no_metadata:
  assumes "cell_metadata cell = None"
  shows "dumpCell path_normalize Uri_parse customRequest this cell
         = Inl (Error ''Not an interactive window cell'')"
  using assms by (simp add: dumpCell_def)

lemma dumpCell_rejected:
  assumes "cell_metadata cell = Some md" and "customRequest (codeOfCell md cell) = Inl err"
  shows "dumpCell path_normalize Uri_parse customRequest this cell
         = Inr (this\<lparr> traceLog := traceLog this
              @ [FailedToDumpCell (cell_index cell) (originalSource (interactive md)) err] \<rparr>)"
  using assms by (simp add: dumpCell_def)

lemma dumpCell_resolved:
  assumes "cell_metadata cell = Some md" and "customRequest (codeOfCell md cell) = Inr response"
  shows "dumpCell path_normalize Uri_parse customRequest this cell
         = Inr (this\<lparr>
             fileToCell :=
               AList.update (path_normalize (sourcePath response))
                 (Uri_parse (uristring (interactive md))) (fileToCell this),
             cellToDebugFileSortedInReverseOrderByLineNumber :=
               sortInReverseOrder
                 (cellToDebugFileSortedInReverseOrderByLineNumber this
                  @ [newCellDump Uri_parse (path_normalize (sourcePath response)) md]) \<rparr>)"
  using assms by (simp add: dumpCell_def Let_def)

lemma debugFilePath_newCellDump: "debugFilePath (newCellDump Uri_parse normed md) = normed"
  by (simp add: newCellDump_def Let_def)

lemma lineIndex_newCellDump:
  "lineIndex (interactive (metadata (newCellDump Uri_parse normed md))) = lineIndex (interactive md)"
  by (simp add: newCellDump_def Let_def)

lemma mset_sortInReverseOrder: "mset (sortInReverseOrder xs) = mset xs"
  by (simp add: sortInReverseOrder_def)

lemma sorted_sortInReverseOrder:
  "sorted (map (\<lambda>c. - lineIndex (interactive (metadata c))) (sortInReverseOrder xs))"
  unfolding sortInReverseOrder_def by (rule sorted_sort_key)

text \<open>Every call that resolves adds its path to the paths held; no call removes one.\<close>

lemma mset_paths_dumpCells:
  "mset (getDumpFilesForDeletion (dumpCells path_normalize Uri_parse this ops))
   = mset (getDumpFilesForDeletion this) + mset (dumpedPaths path_normalize ops)"
proof (induction ops arbitrary: this)
  case Nil
  show ?case by simp
next
  case (Cons op ops)
  obtain cell customRequest where op: "op = (cell, customRequest)"
    by (cases op)
  show ?case
  proof (cases "cell_metadata cell")
    case None
    then show ?thesis
      using Cons.IH [of this] by (simp add: op dumpCell_no_metadata)
  next
    case (Some md)
    show ?thesis
    proof (cases "customRequest (codeOfCell md cell)")
      case (Inl err)
      have "getDumpFilesForDeletion (this\<lparr> traceLog := t \<rparr>) = getDumpFilesForDeletion this" for t
        by (simp add: getDumpFilesForDeletion_def)
      then show ?thesis
        using Cons.IH Some Inl by (simp add: op dumpCell_rejected)
    next
      case (Inr response)
      let ?this' = "this\<lparr>
             fileToCell :=
               AList.update (path_normalize (sourcePath response))
                 (Uri_parse (uristring (interactive md))) (fileToCell this),
             cellToDebugFileSortedInReverseOrderByLineNumber :=
               sortInReverseOrder
                 (cellToDebugFileSortedInReverseOrderByLineNumber this
                  @ [newCellDump Uri_parse (path_normalize (sourcePath response)) md]) \<rparr>"
      have "mset (getDumpFilesForDeletion ?this')
            = mset (getDumpFilesForDeletion this) + {# path_normalize (sourcePath response) #}"
        by (simp add: getDumpFilesForDeletion_def sortInReverseOrder_def
            debugFilePath_newCellDump)
      then show ?thesis
        using Cons.IH [of ?this'] Some Inr by (simp add: op dumpCell_resolved)
    qed
  qed
qed

text \<open>The store holds the records pushed, and nothing else.\<close>

lemma mset_store_dumpCells:
  "mset (cellToDebugFileSortedInReverseOrderByLineNumber
           (dumpCells path_normalize Uri_parse this ops))
   = mset (cellToDebugFileSortedInReverseOrderByLineNumber this)
     + mset (dumpedRecords path_normalize Uri_parse ops)"
proof (induction ops arbitrary: this)
  case Nil
  show ?case by simp
next
  case (Cons op ops)
  obtain cell customRequest where op: "op = (cell, customRequest)"
    by (cases op)
  show ?case
  proof (cases "cell_metadata cell")
    case None
    then show ?thesis
      using Cons.IH [of this] by (simp add: op dumpCell_no_metadata)
  next
    case (Some md)
    show ?thesis
    proof (cases "customRequest (codeOfCell md cell)")
      case (Inl err)
      then show ?thesis
        using Cons.IH Some by (simp add: op dumpCell_rejected)
    next
      case (Inr response)
      then show ?thesis
        using Cons.IH Some by (simp add: op dumpCell_resolved mset_sortInReverseOrder)
    qed
  qed
qed

lemma dumpedPaths_dumpedRecords:
  "dumpedPaths path_normalize ops = map debugFilePath (dumpedRecords path_normalize Uri_parse ops)"
proof (induction ops)
  case Nil
  show ?case by simp
next
  case (Cons op ops)
  then show ?case
    by (cases op) (simp add: debugFilePath_newCellDump split: option.splits sum.splits)
qed

lemma sorted_dumpCells:
  assumes "sorted (map (\<lambda>c. - lineIndex (interactive (metadata c)))
             (cellToDebugFileSortedInReverseOrderByLineNumber this))"
  shows "sorted (map (\<lambda>c. - lineIndex (interactive (metadata c)))
           (cellToDebugFileSortedInReverseOrderByLineNumber
              (dumpCells path_normalize Uri_parse this ops)))"
  using assms
proof (induction ops arbitrary: this)
  case Nil
  then show ?case by simp
next
  case (Cons op ops)
  obtain cell customRequest where op: "op = (cell, customRequest)"
    by (cases op)
  show ?case
  proof (cases "cell_metadata cell")
    case None
    then show ?thesis
      using Cons by (simp add: op dumpCell_no_metadata)
  next
    case (Some md)
    show ?thesis
    proof (cases "customRequest (codeOfCell md cell)")
      case (Inl err)
      then show ?thesis
        using Cons Some by (simp add: op dumpCell_rejected)
    next
      case (Inr response)
      then show ?thesis
        using Cons.IH Some by (simp add: op dumpCell_resolved sorted_sortInReverseOrder)
    qed
  qed
qed

subsection \<open>The notebook adapter's map\<close>

lemma update_fresh:
  assumes "k \<notin> fst ` set al"
  shows "AList.update k v al = al @ [(k, v)]"
  using assms by (induction al) auto

lemma set_update_subset: "set (AList.update k v al) \<subseteq> insert (k, v) (set al)"
  by (induction al) auto

lemma cellToFile_dumpCells_notebook:
  "cellToFile (dumpCells_notebook path_normalize this ops)
   = foldl (\<lambda>al (k, v). AList.update k v al) (cellToFile this)
       (dumpedEntries_notebook path_normalize ops)"
proof (induction ops arbitrary: this)
  case Nil
  show ?case by simp
next
  case (Cons op ops)
  obtain cell customRequest where op: "op = (cell, customRequest)"
    by (cases op)
  show ?case
    by (cases "customRequest (replaceCRLF (cell_text cell))")
       (simp_all add: op Cons.IH dumpCell_notebook_def Let_def)
qed

lemma foldl_update_distinct:
  assumes "distinct (map fst (al @ es))"
  shows "foldl (\<lambda>al (k, v). AList.update k v al) al es = al @ es"
  using assms
proof (induction es arbitrary: al)
  case Nil
  show ?case by simp
next
  case (Cons e es)
  obtain k v where e: "e = (k, v)"
    by (cases e)
  from Cons.prems have fresh: "k \<notin> fst ` set al"
    by (auto simp: e)
  from Cons.prems have "distinct (map fst ((al @ [(k, v)]) @ es))"
    by (simp add: e)
  then have "foldl (\<lambda>al (k, v). AList.update k v al) (al @ [(k, v)]) es = (al @ [(k, v)]) @ es"
    by (rule Cons.IH)
  then show ?case
    by (simp add: e update_fresh [OF fresh])
qed

lemma foldl_update_keys_distinct:
  assumes "distinct (map fst al)"
  shows "distinct (map fst (foldl (\<lambda>al (k, v). AList.update k v al) al es))"
  using assms
proof (induction es arbitrary: al)
  case Nil
  then show ?case by simp
next
  case (Cons e es)
  then show ?case
    by (cases e) (simp add: distinct_update)
qed

lemma foldl_update_subset:
  "set (foldl (\<lambda>al (k, v). AList.update k v al) al es) \<subseteq> set al \<union> set es"
proof (induction es arbitrary: al)
  case Nil
  show ?case by simp
next
  case (Cons e es)
  obtain k v where e: "e = (k, v)"
    by (cases e)
  have "set (foldl (\<lambda>al (k, v). AList.update k v al) (AList.update k v al) es)
        \<subseteq> set (AList.update k v al) \<union> set es"
    by (rule Cons.IH)
  also have "\<dots> \<subseteq> insert (k, v) (set al) \<union> set es"
    using set_update_subset [of k v al] by blast
  finally show ?case
    by (auto simp: e)
qed

text \<open>The entry of a key is the value of the last update of the key.\<close>

lemma map_of_foldl_update:
  "map_of (foldl (\<lambda>al (k, v). AList.update k v al) al es) = map_of (rev es @ al)"
proof (induction es arbitrary: al)
  case Nil
  show ?case by simp
next
  case (Cons e es)
  obtain k v where e: "e = (k, v)"
    by (cases e)
  have "map_of (foldl (\<lambda>al (k, v). AList.update k v al) (AList.update k v al) es)
        = map_of (rev es @ AList.update k v al)"
    by (rule Cons.IH)
  then show ?case
    by (simp add: e update_conv' map_add_def fun_eq_iff split: option.splits)
qed

lemma keys_foldl_update:
  "fst ` set (foldl (\<lambda>al (k, v). AList.update k v al) al es) = fst ` set al \<union> fst ` set es"
proof (induction es arbitrary: al)
  case Nil
  show ?case by simp
next
  case (Cons e es)
  obtain k v where e: "e = (k, v)"
    by (cases e)
  show ?case
    using Cons.IH [of "AList.update k v al"] by (auto simp: e dom_update)
qed

section \<open>Uniqueness of dumped paths\<close>

text \<open>
  C4, as stated, fails: the interactive-window adapter pushes a record at every dump that
  resolves and never removes one, so dumping the same cell twice leaves two records, and
  they share their \<open>debugFilePath\<close> when the kernel answers with the same path.
\<close>

theorem C4_redump_appends_duplicate:
  "map debugFilePath
     (cellToDebugFileSortedInReverseOrderByLineNumber
        (dumpCells id exampleParse initialIWAdapter
           [(exampleCell 0 0 10, kernelDumpsTo ''/tmp/a.py''),
            (exampleCell 0 0 10, kernelDumpsTo ''/tmp/a.py'')]))
   = [''/tmp/a.py'', ''/tmp/a.py'']
   \<and> \<not> distinct (map debugFilePath
          (cellToDebugFileSortedInReverseOrderByLineNumber
             (dumpCells id exampleParse initialIWAdapter
                [(exampleCell 0 0 10, kernelDumpsTo ''/tmp/a.py''),
                 (exampleCell 0 0 10, kernelDumpsTo ''/tmp/a.py'')])))"
proof -
  have "map debugFilePath
     (cellToDebugFileSortedInReverseOrderByLineNumber
        (dumpCells id exampleParse initialIWAdapter
           [(exampleCell 0 0 10, kernelDumpsTo ''/tmp/a.py''),
            (exampleCell 0 0 10, kernelDumpsTo ''/tmp/a.py'')]))
   = [''/tmp/a.py'', ''/tmp/a.py'']"
    by (simp add: dumpCell_def exampleCell_def kernelDumpsTo_def initialIWAdapter_def
        sortInReverseOrder_def newCellDump_def exampleMetadata_def codeOfCell_def Let_def)
  then show ?thesis by simp
qed

text \<open>
  C4, amended. After any sequence of dump operations on a fresh adapter, the
  interactive-window adapter holds exactly the records that the dumps that resolved
  pushed, one for each, kept in descending order of line index: nothing is replaced or
  removed, and no two records share a \<open>debugFilePath\<close> exactly when the kernel returned
  pairwise different paths. The notebook adapter holds one entry for each cell that was
  dumped, and the entry is the path of the cell's last dump that resolved: dumping a
  cell again replaces the cell's entry.
\<close>

theorem C4_one_record_per_dump:
  "mset (cellToDebugFileSortedInReverseOrderByLineNumber
           (dumpCells path_normalize Uri_parse initialIWAdapter ops))
     = mset (dumpedRecords path_normalize Uri_parse ops)
   \<and> length (cellToDebugFileSortedInReverseOrderByLineNumber
             (dumpCells path_normalize Uri_parse initialIWAdapter ops))
     = length (dumpedPaths path_normalize ops)
   \<and> (distinct (map debugFilePath
          (cellToDebugFileSortedInReverseOrderByLineNumber
             (dumpCells path_normalize Uri_parse initialIWAdapter ops)))
        = distinct (dumpedPaths path_normalize ops))
   \<and> sorted (map (\<lambda>c. - lineIndex (interactive (metadata c)))
        (cellToDebugFileSortedInReverseOrderByLineNumber
           (dumpCells path_normalize Uri_parse initialIWAdapter ops)))
   \<and> distinct (map fst (cellToFile
        (dumpCells_notebook path_normalize initialNotebookAdapter nbops)))
   \<and> fst ` set (cellToFile (dumpCells_notebook path_normalize initialNotebookAdapter nbops))
     = fst ` set (dumpedEntries_notebook path_normalize nbops)
   \<and> map_of (cellToFile (dumpCells_notebook path_normalize initialNotebookAdapter nbops))
     = map_of (rev (dumpedEntries_notebook path_normalize nbops))"
proof -
  let ?store = "cellToDebugFileSortedInReverseOrderByLineNumber
                  (dumpCells path_normalize Uri_parse initialIWAdapter ops)"
  let ?map = "cellToFile (dumpCells_notebook path_normalize initialNotebookAdapter nbops)"
  have recs: "mset ?store = mset (dumpedRecords path_normalize Uri_parse ops)"
    using mset_store_dumpCells [of path_normalize Uri_parse initialIWAdapter ops]
    by (simp add: initialIWAdapter_def)
  then have "mset (map debugFilePath ?store)
             = mset (map debugFilePath (dumpedRecords path_normalize Uri_parse ops))"
    by simp
  then have m: "mset (map debugFilePath ?store) = mset (dumpedPaths path_normalize ops)"
    by (simp only: dumpedPaths_dumpedRecords [of path_normalize ops Uri_parse])
  have "length (map debugFilePath ?store) = length (dumpedPaths path_normalize ops)"
    using m by (rule mset_eq_length)
  then have len: "length ?store = length (dumpedPaths path_normalize ops)"
    by simp
  have dist: "distinct (map debugFilePath ?store) = distinct (dumpedPaths path_normalize ops)"
    using m by (rule mset_eq_imp_distinct_iff)
  have srt: "sorted (map (\<lambda>c. - lineIndex (interactive (metadata c))) ?store)"
    by (rule sorted_dumpCells) (simp add: initialIWAdapter_def)
  have c: "?map = foldl (\<lambda>al (k, v). AList.update k v al) []
                    (dumpedEntries_notebook path_normalize nbops)"
    by (simp add: cellToFile_dumpCells_notebook initialNotebookAdapter_def)
  have nb: "distinct (map fst ?map)"
    unfolding c by (rule foldl_update_keys_distinct) simp
  have keys: "fst ` set ?map = fst ` set (dumpedEntries_notebook path_normalize nbops)"
    unfolding c by (simp add: keys_foldl_update)
  have last: "map_of ?map = map_of (rev (dumpedEntries_notebook path_normalize nbops))"
    unfolding c by (simp add: map_of_foldl_update)
  from recs len dist srt nb keys last show ?thesis
    by blast
qed

section \<open>The list of files to delete\<close>

text \<open>The interactive-window adapter returns the path of every record ever created: up to
  order, the paths of the dumps that resolved, one for each.\<close>

lemma getDumpFilesForDeletion_all_records:
  "mset (getDumpFilesForDeletion (dumpCells path_normalize Uri_parse initialIWAdapter ops))
     = mset (dumpedPaths path_normalize ops)
   \<and> length (getDumpFilesForDeletion (dumpCells path_normalize Uri_parse initialIWAdapter ops))
     = length (dumpedPaths path_normalize ops)"
proof -
  have m: "mset (getDumpFilesForDeletion (dumpCells path_normalize Uri_parse initialIWAdapter ops))
     = mset (dumpedPaths path_normalize ops)"
    using mset_paths_dumpCells [of path_normalize Uri_parse initialIWAdapter ops]
    by (simp add: getDumpFilesForDeletion_def initialIWAdapter_def)
  then have "length (getDumpFilesForDeletion
        (dumpCells path_normalize Uri_parse initialIWAdapter ops))
     = length (dumpedPaths path_normalize ops)"
    by (rule mset_eq_length)
  with m show ?thesis
    by simp
qed

text \<open>The notebook adapter returns paths of dumps that resolved, and after dumps of
  pairwise different cells exactly their paths.\<close>

lemma getDumpFilesForDeletion_notebook_subset:
  "set (getDumpFilesForDeletion_notebook
          (dumpCells_notebook path_normalize initialNotebookAdapter nbops))
   \<subseteq> set (map snd (dumpedEntries_notebook path_normalize nbops))"
  using foldl_update_subset [of "[]" "dumpedEntries_notebook path_normalize nbops"]
  by (auto simp: getDumpFilesForDeletion_notebook_def cellToFile_dumpCells_notebook
      initialNotebookAdapter_def)

lemma getDumpFilesForDeletion_notebook_distinct_cells:
  assumes "distinct (map fst (dumpedEntries_notebook path_normalize nbops))"
  shows "getDumpFilesForDeletion_notebook
           (dumpCells_notebook path_normalize initialNotebookAdapter nbops)
         = map snd (dumpedEntries_notebook path_normalize nbops)"
  using foldl_update_distinct [of "[]" "dumpedEntries_notebook path_normalize nbops"] assms
  by (simp add: getDumpFilesForDeletion_notebook_def cellToFile_dumpCells_notebook
      initialNotebookAdapter_def)

text \<open>
  C6. The claim: \<open>getDumpFilesForDeletion()\<close> returns the \<open>debugFilePath\<close> of every record
  ever created during the session, the paths of records later superseded by a re-dump of
  the same cell included. The interactive-window adapter does so. The notebook adapter
  does not: it keeps the paths in a \<open>Map\<close> from the cell to its path, and a second dump of
  a cell overwrites the cell's path. A cell dumped to \<open>/tmp/a.py\<close>, edited and dumped again
  to \<open>/tmp/b.py\<close> leaves \<open>/tmp/b.py\<close> alone in the list, and \<open>/tmp/a.py\<close> is never deleted;
  the same two dumps in the interactive-window adapter leave both paths in its list.
\<close>

theorem C6_notebook_drops_superseded_path:
  "dumpedEntries_notebook id
     [(exampleNotebookCell ''/nb/cell1'' ''x = 1'', kernelDumpsTo ''/tmp/a.py''),
      (exampleNotebookCell ''/nb/cell1'' ''x = 2'', kernelDumpsTo ''/tmp/b.py'')]
     = [(''vscode-notebook-cell:/nb/cell1'', ''/tmp/a.py''),
        (''vscode-notebook-cell:/nb/cell1'', ''/tmp/b.py'')]
   \<and> getDumpFilesForDeletion_notebook
       (dumpCells_notebook id initialNotebookAdapter
          [(exampleNotebookCell ''/nb/cell1'' ''x = 1'', kernelDumpsTo ''/tmp/a.py''),
           (exampleNotebookCell ''/nb/cell1'' ''x = 2'', kernelDumpsTo ''/tmp/b.py'')])
     = [''/tmp/b.py'']
   \<and> ''/tmp/a.py'' \<notin> set (getDumpFilesForDeletion_notebook
        (dumpCells_notebook id initialNotebookAdapter
           [(exampleNotebookCell ''/nb/cell1'' ''x = 1'', kernelDumpsTo ''/tmp/a.py''),
            (exampleNotebookCell ''/nb/cell1'' ''x = 2'', kernelDumpsTo ''/tmp/b.py'')]))
   \<and> getDumpFilesForDeletion
       (dumpCells id exampleParse initialIWAdapter
          [(exampleCell 0 0 10, kernelDumpsTo ''/tmp/a.py''),
           (exampleCell 0 0 10, kernelDumpsTo ''/tmp/b.py'')])
     = [''/tmp/a.py'', ''/tmp/b.py'']"
  by (simp add: getDumpFilesForDeletion_notebook_def dumpCell_notebook_def
      initialNotebookAdapter_def exampleNotebookCell_def kernelDumpsTo_def Let_def
      getDumpFilesForDeletion_def dumpCell_def exampleCell_def initialIWAdapter_def
      sortInReverseOrder_def newCellDump_def exampleMetadata_def codeOfCell_def)

section \<open>A dump that the kernel rejects\<close>

text \<open>
  C8, as stated, fails in its last part: after a dump that failed, the translation of a
  location of that cell is not always a no-op. The lookup by real line takes the nearest
  preceding record, so with a record of an earlier cell of the same file in the store,
  a location in the cell whose dump failed is rewritten to the earlier cell's dump file.
  Here the cell at line index 15 fails to dump and real line 20 is sent to \<open>/tmp/a.py\<close>.
\<close>

theorem C8_failed_cell_translated_by_earlier_record:
  "traceLog (dumpCells id exampleParse initialIWAdapter
       [(exampleCell 0 0 10, kernelDumpsTo ''/tmp/a.py''),
        (exampleCell 1 15 85, kernelRejects)])
     = [FailedToDumpCell 1 ''pass'' (Rejected ''dumpCell failed'')]
   \<and> translateRealLocationToDebuggerLocation
       (cellToDebugFileSortedInReverseOrderByLineNumber
          (dumpCells id exampleParse initialIWAdapter
             [(exampleCell 0 0 10, kernelDumpsTo ''/tmp/a.py''),
              (exampleCell 1 15 85, kernelRejects)]))
       (Some \<lparr> src_name = None, src_path = Some ''/work/file.py'' \<rparr>)
       (Some \<lparr> loc_line = Some 20, loc_endLine = None, loc_breakpoints = None \<rparr>)
     = Inr (Some \<lparr> src_name = None, src_path = Some ''/tmp/a.py'' \<rparr>,
            Some \<lparr> loc_line = Some 10, loc_endLine = None, loc_breakpoints = None \<rparr>)"
  by (simp add: dumpCell_def exampleCell_def kernelDumpsTo_def kernelRejects_def
      initialIWAdapter_def sortInReverseOrder_def newCellDump_def exampleMetadata_def
      codeOfCell_def Let_def translateRealLocationToDebuggerLocation_def startLineOf_def
      cellForStartLine_def exampleParse_def shiftLocationToKernel_def toKernel_def)

text \<open>
  C8, amended. Whenever the kernel's \<open>dumpCell\<close> request rejects, \<open>dumpCell\<close> recovers
  locally, in both adapters: the error is logged, the call returns without an exception,
  and no record is added; the store and the path maps are what they were, so every later
  translation and the list of files to delete are what they were before the call. A
  later translation is a no-op for a message that no record of the unchanged store
  matches: in the kernel-to-real direction, when no record has the message's source path
  as its \<open>debugFilePath\<close>; in the real-to-kernel direction, when the start line of the
  location can be read (its \<open>line\<close>, or the line of its first breakpoint) and no record
  starts before that line, or the first record that does belongs to another file; in the
  notebook adapter, when \<open>cellToFile\<close> has no entry for the source path.
\<close>

theorem C8_dump_failure_recovered:
  assumes "cell_metadata cell = Some md"
    and "customRequest (codeOfCell md cell) = Inl err"
    and "customRequest_nb (replaceCRLF (cell_text nbcell)) = Inl err_nb"
  shows "dumpCell path_normalize Uri_parse customRequest this cell
           = Inr (this\<lparr> traceLog := traceLog this
               @ [FailedToDumpCell (cell_index cell) (originalSource (interactive md)) err] \<rparr>)
       \<and> cellToDebugFileSortedInReverseOrderByLineNumber
           (projr (dumpCell path_normalize Uri_parse customRequest this cell))
           = cellToDebugFileSortedInReverseOrderByLineNumber this
       \<and> fileToCell (projr (dumpCell path_normalize Uri_parse customRequest this cell))
           = fileToCell this
       \<and> getDumpFilesForDeletion (projr (dumpCell path_normalize Uri_parse customRequest this cell))
           = getDumpFilesForDeletion this
       \<and> translateDebuggerFileToRealFile basename
           (cellToDebugFileSortedInReverseOrderByLineNumber
              (projr (dumpCell path_normalize Uri_parse customRequest this cell))) source lines
           = translateDebuggerFileToRealFile basename
               (cellToDebugFileSortedInReverseOrderByLineNumber this) source lines
       \<and> translateRealLocationToDebuggerLocation
           (cellToDebugFileSortedInReverseOrderByLineNumber
              (projr (dumpCell path_normalize Uri_parse customRequest this cell))) source location
           = translateRealLocationToDebuggerLocation
               (cellToDebugFileSortedInReverseOrderByLineNumber this) source location
       \<and> (find (\<lambda>item. Some (debugFilePath item) = src_path s)
              (cellToDebugFileSortedInReverseOrderByLineNumber this) = None
          \<longrightarrow> translateDebuggerFileToRealFile basename
                (cellToDebugFileSortedInReverseOrderByLineNumber
                   (projr (dumpCell path_normalize Uri_parse customRequest this cell)))
                (Some s) lines
              = (Some s, lines))
       \<and> (startLineOf loc = Inr startLine
            \<and> map_option (\<lambda>c. uri_path (interactiveWindow c))
                 (cellForStartLine (cellToDebugFileSortedInReverseOrderByLineNumber this) startLine)
               \<noteq> src_path s
          \<longrightarrow> translateRealLocationToDebuggerLocation
                (cellToDebugFileSortedInReverseOrderByLineNumber
                   (projr (dumpCell path_normalize Uri_parse customRequest this cell)))
                (Some s) (Some loc)
              = Inr (Some s, Some loc))
       \<and> dumpCell_notebook path_normalize customRequest_nb nb nbcell
           = nb\<lparr> nb_traceLog := nb_traceLog nb @ [TraceError err_nb] \<rparr>
       \<and> translateRealLocationToDebuggerLocation_notebook
           (dumpCell_notebook path_normalize customRequest_nb nb nbcell) source
           = translateRealLocationToDebuggerLocation_notebook nb source
       \<and> getDumpFilesForDeletion_notebook
           (dumpCell_notebook path_normalize customRequest_nb nb nbcell)
           = getDumpFilesForDeletion_notebook nb
       \<and> (map_of (cellToFile nb) p = None
          \<longrightarrow> translateRealLocationToDebuggerLocation_notebook
                (dumpCell_notebook path_normalize customRequest_nb nb nbcell)
                (Some (s\<lparr> src_path := Some p \<rparr>))
              = Some (s\<lparr> src_path := Some p \<rparr>))"
proof -
  let ?this' = "this\<lparr> traceLog := traceLog this
               @ [FailedToDumpCell (cell_index cell) (originalSource (interactive md)) err] \<rparr>"
  have d: "dumpCell path_normalize Uri_parse customRequest this cell = Inr ?this'"
    using assms(1,2) by (rule dumpCell_rejected)
  let ?store = "cellToDebugFileSortedInReverseOrderByLineNumber this"
  have noop1: "translateDebuggerFileToRealFile basename ?store (Some s) lines = (Some s, lines)"
    if "find (\<lambda>item. Some (debugFilePath item) = src_path s) ?store = None"
    using that by (rule translateDebuggerFileToRealFile_unmatched)
  have noop2: "translateRealLocationToDebuggerLocation ?store (Some s) (Some loc)
               = Inr (Some s, Some loc)"
    if "startLineOf loc = Inr startLine"
      and "map_option (\<lambda>c. uri_path (interactiveWindow c)) (cellForStartLine ?store startLine)
           \<noteq> src_path s"
    using that
    by (cases "cellForStartLine ?store startLine")
       (auto simp: translateRealLocationToDebuggerLocation_def)
  have noop3: "translateRealLocationToDebuggerLocation_notebook nb (Some (s\<lparr> src_path := Some p \<rparr>))
               = Some (s\<lparr> src_path := Some p \<rparr>)"
    if "map_of (cellToFile nb) p = None"
    using that by (simp add: translateRealLocationToDebuggerLocation_notebook_def)
  have n: "dumpCell_notebook path_normalize customRequest_nb nb nbcell
           = nb\<lparr> nb_traceLog := nb_traceLog nb @ [TraceError err_nb] \<rparr>"
    using assms(3) by (simp add: dumpCell_notebook_def)
  have c: "cellToFile (nb\<lparr> nb_traceLog := t \<rparr>) = cellToFile nb" for t
    by simp
  have tn: "translateRealLocationToDebuggerLocation_notebook (nb\<lparr> nb_traceLog := t \<rparr>) src
            = translateRealLocationToDebuggerLocation_notebook nb src" for t src
    unfolding translateRealLocationToDebuggerLocation_notebook_def c ..
  show ?thesis
    unfolding d n
    using noop1 noop2 noop3
    by (simp add: getDumpFilesForDeletion_def getDumpFilesForDeletion_notebook_def tn)
qed

theorem C8_dump_failure_recovered_witness:
  "dumpCell id exampleParse kernelRejects initialIWAdapter (exampleCell 1 15 85)
     = Inr (initialIWAdapter\<lparr> traceLog :=
              [FailedToDumpCell 1 ''pass'' (Rejected ''dumpCell failed'')] \<rparr>)
   \<and> startLineOf \<lparr> loc_line = Some 20, loc_endLine = None, loc_breakpoints = None \<rparr> = Inr 20
   \<and> cellForStartLine (cellToDebugFileSortedInReverseOrderByLineNumber initialIWAdapter) 20 = None
   \<and> translateRealLocationToDebuggerLocation
       (cellToDebugFileSortedInReverseOrderByLineNumber
          (projr (dumpCell id exampleParse kernelRejects initialIWAdapter (exampleCell 1 15 85))))
       (Some \<lparr> src_name = None, src_path = Some ''/work/file.py'' \<rparr>)
       (Some \<lparr> loc_line = Some 20, loc_endLine = None, loc_breakpoints = None \<rparr>)
     = Inr (Some \<lparr> src_name = None, src_path = Some ''/work/file.py'' \<rparr>,
            Some \<lparr> loc_line = Some 20, loc_endLine = None, loc_breakpoints = None \<rparr>)
   \<and> translateDebuggerFileToRealFile id
       (cellToDebugFileSortedInReverseOrderByLineNumber
          (projr (dumpCell id exampleParse kernelRejects initialIWAdapter (exampleCell 1 15 85))))
       (Some \<lparr> src_name = None, src_path = Some ''/work/file.py'' \<rparr>)
       (Some \<lparr> l_line = Some 3, l_endLine = None, l_lines = None \<rparr>)
     = (Some \<lparr> src_name = None, src_path = Some ''/work/file.py'' \<rparr>,
        Some \<lparr> l_line = Some 3, l_endLine = None, l_lines = None \<rparr>)
   \<and> dumpCell_notebook id kernelRejects initialNotebookAdapter
       (exampleNotebookCell ''/nb/cell1'' ''x = 1'')
     = initialNotebookAdapter\<lparr> nb_traceLog := [TraceError (Rejected ''dumpCell failed'')] \<rparr>
   \<and> map_of (cellToFile initialNotebookAdapter) ''/work/file.py'' = None
   \<and> translateRealLocationToDebuggerLocation_notebook
       (dumpCell_notebook id kernelRejects initialNotebookAdapter
          (exampleNotebookCell ''/nb/cell1'' ''x = 1''))
       (Some \<lparr> src_name = None, src_path = Some ''/work/file.py'' \<rparr>)
     = Some \<lparr> src_name = None, src_path = Some ''/work/file.py'' \<rparr>"
proof -
  have md: "cell_metadata (exampleCell 1 15 85) = Some (exampleMetadata 15 85)"
    by (simp add: exampleCell_def)
  have rej: "kernelRejects c = Inl (Rejected ''dumpCell failed'')" for c
    by (simp add: kernelRejects_def)
  have st: "startLineOf \<lparr> loc_line = Some 20, loc_endLine = None, loc_breakpoints = None \<rparr>
            = Inr 20"
    by (simp add: startLineOf_def)
  show ?thesis
    using C8_dump_failure_recovered
      [where cell = "exampleCell 1 15 85" and md = "exampleMetadata 15 85"
         and customRequest = kernelRejects and err = "Rejected ''dumpCell failed''"
         and customRequest_nb = kernelRejects and err_nb = "Rejected ''dumpCell failed''"
         and nbcell = "exampleNotebookCell ''/nb/cell1'' ''x = 1''"
         and path_normalize = id and Uri_parse = exampleParse
         and this = initialIWAdapter and nb = initialNotebookAdapter and basename = id
         and source = None and location = None
         and s = "\<lparr> src_name = None, src_path = Some ''/work/file.py'' \<rparr>"
         and lines = "Some \<lparr> l_line = Some 3, l_endLine = None, l_lines = None \<rparr>"
         and loc = "\<lparr> loc_line = Some 20, loc_endLine = None, loc_breakpoints = None \<rparr>"
         and startLine = 20 and p = "''/work/file.py''",
       OF md rej rej]
    by (simp add: st exampleCell_def exampleMetadata_def initialIWAdapter_def
        initialNotebookAdapter_def cellForStartLine_def
        translateRealLocationToDebuggerLocation_def translateDebuggerFileToRealFile_def
        translateRealLocationToDebuggerLocation_notebook_def)
qed

section \<open>The breakpoint partitioner: what the loop produces\<close>

lemma subRequests_append: "subRequests (ps @ qs) = subRequests ps @ subRequests qs"
  by (induction ps rule: subRequests.induct) simp_all

lemma resolvedResponses_append:
  "resolvedResponses (ps @ qs) = resolvedResponses ps @ resolvedResponses qs"
  by (induction ps rule: resolvedResponses.induct) simp_all

lemma resolvedResponses_sendIfNeeded:
  "resolvedResponses (sendIfNeeded request bps reqs) = resolvedResponses reqs"
  by (simp add: sendIfNeeded_def resolvedResponses_append)

lemma requestBreakpoints_clone:
  "requestBreakpoints (request\<lparr> arguments :=
      (arguments request)\<lparr> args_breakpoints := Some bps \<rparr> \<rparr>) = bps"
  by (simp add: requestBreakpoints_def)

lemma subRequests_sendIfNeeded:
  "concat (map requestBreakpoints (subRequests (sendIfNeeded request bps reqs)))
   = concat (map requestBreakpoints (subRequests reqs)) @ bps"
  by (simp add: sendIfNeeded_def subRequests_append requestBreakpoints_clone)

text \<open>The loop sends nothing twice and loses nothing: the resolved responses are the fake
  responses of the breakpoints without a record, and the breakpoints of the sub-requests
  sent so far, followed by the current group, are the breakpoints with a record.\<close>

lemma partitionLoop_invariant:
  assumes "partitionLoop store request bps (cur, cbps, reqs) = (cur', cbps', reqs')"
  shows "resolvedResponses reqs'
           = resolvedResponses reqs
             @ map fakeResponse (filter (\<lambda>bp. cellForBp store bp = None) bps)
       \<and> concat (map requestBreakpoints (subRequests reqs')) @ cbps'
           = concat (map requestBreakpoints (subRequests reqs)) @ cbps
             @ filter (\<lambda>bp. cellForBp store bp \<noteq> None) bps"
  using assms
proof (induction bps arbitrary: cur cbps reqs)
  case Nil
  then show ?case by simp
next
  case (Cons bp bps)
  show ?case
  proof (cases "cellForBp store bp")
    case None
    with Cons.prems have
      "partitionLoop store request bps (cur, cbps, reqs @ [Resolved (fakeResponse bp)])
       = (cur', cbps', reqs')"
      by simp
    from Cons.IH [OF this] None show ?thesis
      by (simp add: resolvedResponses_append subRequests_append)
  next
    case (Some cell)
    show ?thesis
    proof (cases "Some (lineOffset cell) \<noteq> cur")
      case True
      with Cons.prems Some have
        "partitionLoop store request bps
           (Some (lineOffset cell), [bp], sendIfNeeded request cbps reqs)
         = (cur', cbps', reqs')"
        by simp
      from Cons.IH [OF this] Some show ?thesis
        by (simp add: resolvedResponses_sendIfNeeded subRequests_sendIfNeeded)
    next
      case False
      with Cons.prems Some have
        "partitionLoop store request bps (cur, cbps @ [bp], reqs) = (cur', cbps', reqs')"
        by simp
      from Cons.IH [OF this] Some show ?thesis
        by simp
    qed
  qed
qed

lemma resolvedResponses_partitionBreakpoints:
  "resolvedResponses (partitionBreakpoints store request)
   = map fakeResponse (filter (\<lambda>bp. cellForBp store bp = None) (requestBreakpoints request))"
proof -
  obtain cur' cbps' reqs' where
    l: "partitionLoop store request (requestBreakpoints request) (None, [], [])
        = (cur', cbps', reqs')"
    by (cases "partitionLoop store request (requestBreakpoints request) (None, [], [])")
  from partitionLoop_invariant [OF l] show ?thesis
    by (simp add: partitionBreakpoints_def l resolvedResponses_sendIfNeeded)
qed

lemma subRequests_partitionBreakpoints:
  "concat (map requestBreakpoints (subRequests (partitionBreakpoints store request)))
   = filter (\<lambda>bp. cellForBp store bp \<noteq> None) (requestBreakpoints request)"
proof -
  obtain cur' cbps' reqs' where
    l: "partitionLoop store request (requestBreakpoints request) (None, [], [])
        = (cur', cbps', reqs')"
    by (cases "partitionLoop store request (requestBreakpoints request) (None, [], [])")
  from partitionLoop_invariant [OF l] show ?thesis
    by (simp add: partitionBreakpoints_def l subRequests_sendIfNeeded)
qed

subsection \<open>Settling and merging\<close>

lemma promiseAll_Inr:
  assumes "promiseAll rs = Inr xs"
  shows "rs = map Inr xs"
  using assms
proof (induction rs arbitrary: xs)
  case Nil
  then show ?case by simp
next
  case (Cons r rs)
  then show ?case
    by (cases r) (auto split: sum.splits)
qed

lemma resolved_settles:
  assumes "r \<in> set (resolvedResponses ps)" and "map (settle super) ps = map Inr responses"
  shows "r \<in> set responses"
  using assms
proof (induction ps arbitrary: responses rule: resolvedResponses.induct)
  case 1
  then show ?case by simp
next
  case (2 q ps)
  then show ?case by (cases responses) auto
next
  case (3 q ps)
  then show ?case by (cases responses) auto
qed

lemma responseBreakpoints_mergeStep:
  assumes "mergeStep n r = Inr n'"
  shows "responseBreakpoints n' = responseBreakpoints n @ responseBreakpoints r"
  using assms
  by (auto simp: mergeStep_def responseBreakpoints_def split: option.splits)

lemma responseBreakpoints_mergeFrom:
  assumes "mergeFrom n rs = Inr resp"
  shows "responseBreakpoints resp = responseBreakpoints n @ concat (map responseBreakpoints rs)"
  using assms
proof (induction rs arbitrary: n)
  case Nil
  then show ?case by simp
next
  case (Cons r rs)
  then obtain n' where s: "mergeStep n r = Inr n'" and m: "mergeFrom n' rs = Inr resp"
    by (auto split: sum.splits)
  from Cons.IH [OF m] responseBreakpoints_mergeStep [OF s] show ?case
    by simp
qed

lemma responseBreakpoints_mergeResponses:
  assumes "mergeResponses rs = Inr resp"
  shows "responseBreakpoints resp = concat (map responseBreakpoints rs)"
  using assms by (cases rs) (simp_all add: responseBreakpoints_mergeFrom)

section \<open>Breakpoints that no record owns\<close>

text \<open>
  C7, as stated, fails: a request whose command is \<open>setBreakpoints\<close> is never partitioned,
  so nothing is synthesized for it. With a single record whose cell starts at line index
  15, the breakpoint at line 2 is owned by no record, and the request is handed whole to
  the base class, this breakpoint included, after the \<open>setPydevdSourceMap\<close> request; the
  kernel receives it unchanged.
\<close>

theorem C7_setBreakpoints_forwards_unowned_breakpoint:
  "cellForBp exampleLateStore (lineBreakpoint 2) = None
   \<and> fst (sendRequestToJupyterSession2 customRequestResolves
            (passThrough id exampleKernel exampleLateStore) exampleLateStore
            (exampleRequest ''setBreakpoints'' [2, 20]))
       = [CustomRequest ''setPydevdSourceMap''
            (sourceMapRequestFor (exampleRequest ''setBreakpoints'' [2, 20]) ''/tmp/b.py''),
          SuperSendRequest (exampleRequest ''setBreakpoints'' [2, 20])]
   \<and> lineBreakpoint 2 \<in> set (requestBreakpoints (exampleRequest ''setBreakpoints'' [2, 20]))
   \<and> passThroughRequest exampleLateStore (exampleRequest ''setBreakpoints'' [2, 20])
       = Inr (exampleRequest ''setBreakpoints'' [2, 20])
   \<and> fakeBreakpoint (lineBreakpoint 2) \<notin> set (responseBreakpoints (projr (snd
        (sendRequestToJupyterSession2 customRequestResolves
            (passThrough id exampleKernel exampleLateStore) exampleLateStore
            (exampleRequest ''setBreakpoints'' [2, 20])))))"
proof -
  let ?r = "newCellDump exampleParse ''/tmp/b.py'' (exampleMetadata 15 85)"
  let ?src = "\<lparr> src_name = Some ''file.py'', src_path = Some ''/work/file.py'' \<rparr>"
  let ?req = "\<lparr> req_seq = 7, command = ''setBreakpoints'',
       arguments = \<lparr> args_source = ?src,
                     args_breakpoints = Some [lineBreakpoint 2, lineBreakpoint 20] \<rparr> \<rparr>"
  let ?answer = "\<lambda>l. \<lparr> verified = True, bk_source = Some ?src, bk_line = Some l,
                       bk_endLine = None, bk_column = None, bk_condition = None \<rparr>"
  have store: "exampleLateStore = [?r]"
    by (simp add: exampleLateStore_def dumpCell_def exampleCell_def kernelDumpsTo_def
        initialIWAdapter_def sortInReverseOrder_def codeOfCell_def Let_def)
  have req: "exampleRequest ''setBreakpoints'' [2, 20] = ?req"
    by (simp add: exampleRequest_def)
  have r: "lineIndex (interactive (metadata ?r)) = 15" "debugFilePath ?r = ''/tmp/b.py''"
    by (simp_all add: newCellDump_def exampleMetadata_def)
  have unowned: "cellForBp [?r] (lineBreakpoint 2) = None"
    by (simp add: cellForBp_def r lineBreakpoint_def)
  have pass: "passThroughRequest [?r] ?req = Inr ?req"
    by (simp add: passThroughRequest_def translateRealLocationToDebuggerLocation_def
        startLineOf_def cellForStartLine_def r lineBreakpoint_def)
  have answer: "passThrough id exampleKernel [?r] ?req
      = Inr \<lparr> resp_success = Some True, resp_command = Some ''setBreakpoints'',
              body = Some \<lparr> breakpoints = Some [?answer 2, ?answer 20] \<rparr> \<rparr>"
    unfolding passThrough_def pass
    by (simp add: exampleKernel_def lineBreakpoint_def untranslateResponse_def
        untranslateBreakpoint_def translateDebuggerFileToRealFile_def r)
  have run: "sendRequestToJupyterSession2 customRequestResolves
               (passThrough id exampleKernel [?r]) [?r] ?req
      = ([CustomRequest ''setPydevdSourceMap'' (sourceMapRequestFor ?req ''/tmp/b.py''),
          SuperSendRequest ?req],
         Inr \<lparr> resp_success = Some True, resp_command = Some ''setBreakpoints'',
               body = Some \<lparr> breakpoints = Some [?answer 2, ?answer 20] \<rparr> \<rparr>)"
    unfolding sendRequestToJupyterSession2_def answer
    by (simp add: customRequestResolves_def r)
  show ?thesis
    unfolding store req run
    by (simp add: unowned pass requestBreakpoints_def responseBreakpoints_def
        fakeBreakpoint_def)
qed

text \<open>
  C7, amended. In a request that the adapter partitions (its command is
  \<open>2setBreakpoints\<close> and the interactive-window path of the first record is the path of
  its source), every breakpoint whose line is owned by no dump record yields a
  synthesized response whose single entry is the breakpoint with \<open>verified: true\<close>, in the
  order of the request, and it is in no sub-request: the sub-requests carry exactly the
  breakpoints that have an owning record, in the order of the request, and only they are
  handed to the base class. When the partitioned request returns a response, the
  synthesized entry is among its breakpoints.
\<close>

theorem C7_unmapped_breakpoints_synthesized:
  "resolvedResponses (partitionBreakpoints store request)
     = map fakeResponse
         (filter (\<lambda>bp. cellForBp store bp = None) (requestBreakpoints request))
   \<and> concat (map requestBreakpoints (subRequests (partitionBreakpoints store request)))
     = filter (\<lambda>bp. cellForBp store bp \<noteq> None) (requestBreakpoints request)
   \<and> responseBreakpoints (fakeResponse bp) = [fakeBreakpoint bp]
   \<and> verified (fakeBreakpoint bp)
   \<and> bk_line (fakeBreakpoint bp) = Some (sb_line bp)
   \<and> (command request = ''2setBreakpoints''
        \<and> firstInteractiveWindowPath store = src_path (args_source (arguments request))
        \<and> bp \<in> set (requestBreakpoints request) \<and> cellForBp store bp = None
      \<longrightarrow>
        fst (sendRequestToJupyterSession2 customRequest super store request)
          = map SuperSendRequest (subRequests (partitionBreakpoints store request))
        \<and> bp \<notin> set (concat (map requestBreakpoints
                   (subRequests (partitionBreakpoints store request))))
        \<and> (\<forall>resp. snd (sendRequestToJupyterSession2 customRequest super store request)
                     = Inr resp
               \<longrightarrow> fakeBreakpoint bp \<in> set (responseBreakpoints resp)))"
proof -
  have fake: "responseBreakpoints (fakeResponse bp) = [fakeBreakpoint bp]"
    by (simp add: responseBreakpoints_def fakeResponse_def)
  have part:
    "fst (sendRequestToJupyterSession2 customRequest super store request)
          = map SuperSendRequest (subRequests (partitionBreakpoints store request))
     \<and> bp \<notin> set (concat (map requestBreakpoints
                (subRequests (partitionBreakpoints store request))))
     \<and> (\<forall>resp. snd (sendRequestToJupyterSession2 customRequest super store request)
                  = Inr resp
            \<longrightarrow> fakeBreakpoint bp \<in> set (responseBreakpoints resp))"
    if c: "command request = ''2setBreakpoints''"
      and p: "firstInteractiveWindowPath store = src_path (args_source (arguments request))"
      and b: "bp \<in> set (requestBreakpoints request)"
      and u: "cellForBp store bp = None"
  proof -
    let ?ps = "partitionBreakpoints store request"
    have run: "sendRequestToJupyterSession2 customRequest super store request
        = (map SuperSendRequest (subRequests ?ps),
           case promiseAll (map (settle super) ?ps) of
             Inl e \<Rightarrow> Inl e
           | Inr responses \<Rightarrow> mergeResponses responses)"
      using c p by (simp add: sendRequestToJupyterSession2_def Let_def)
    have notin: "bp \<notin> set (concat (map requestBreakpoints (subRequests ?ps)))"
      unfolding subRequests_partitionBreakpoints using u by simp
    have res: "fakeResponse bp \<in> set (resolvedResponses ?ps)"
      unfolding resolvedResponses_partitionBreakpoints using b u by simp
    have merged: "fakeBreakpoint bp \<in> set (responseBreakpoints resp)"
      if "snd (sendRequestToJupyterSession2 customRequest super store request) = Inr resp"
      for resp
    proof -
      from that obtain responses where
        all: "promiseAll (map (settle super) ?ps) = Inr responses"
        and m: "mergeResponses responses = Inr resp"
        by (auto simp: run split: sum.splits)
      have "fakeResponse bp \<in> set responses"
        using res promiseAll_Inr [OF all] by (rule resolved_settles)
      then have "set (responseBreakpoints (fakeResponse bp))
                 \<subseteq> set (concat (map responseBreakpoints responses))"
        by auto
      then show ?thesis
        by (simp add: responseBreakpoints_mergeResponses [OF m] fake)
    qed
    from run notin merged show ?thesis
      by simp
  qed
  show ?thesis
    using part
    by (simp add: resolvedResponses_partitionBreakpoints subRequests_partitionBreakpoints
        fake fakeBreakpoint_def)
qed

text \<open>Breakpoints at lines 2 and 20 with a single record whose cell starts at line index
  15: line 2 has no owner, line 20 is sent to the kernel.\<close>

theorem C7_unmapped_breakpoints_synthesized_witness:
  "command (exampleRequest ''2setBreakpoints'' [2, 20]) = ''2setBreakpoints''
   \<and> firstInteractiveWindowPath exampleLateStore
       = src_path (args_source (arguments (exampleRequest ''2setBreakpoints'' [2, 20])))
   \<and> lineBreakpoint 2 \<in> set (requestBreakpoints (exampleRequest ''2setBreakpoints'' [2, 20]))
   \<and> cellForBp exampleLateStore (lineBreakpoint 2) = None
   \<and> fst (sendRequestToJupyterSession2 customRequestResolves
            (passThrough id exampleKernel exampleLateStore) exampleLateStore
            (exampleRequest ''2setBreakpoints'' [2, 20]))
       = [SuperSendRequest
            ((exampleRequest ''2setBreakpoints'' [2, 20])\<lparr> arguments :=
               (arguments (exampleRequest ''2setBreakpoints'' [2, 20]))
                 \<lparr> args_breakpoints := Some [lineBreakpoint 20] \<rparr> \<rparr>)]
   \<and> map verified (responseBreakpoints (projr (snd
        (sendRequestToJupyterSession2 customRequestResolves
            (passThrough id exampleKernel exampleLateStore) exampleLateStore
            (exampleRequest ''2setBreakpoints'' [2, 20]))))) = [True, True]
   \<and> fakeBreakpoint (lineBreakpoint 2) \<in> set (responseBreakpoints (projr (snd
        (sendRequestToJupyterSession2 customRequestResolves
            (passThrough id exampleKernel exampleLateStore) exampleLateStore
            (exampleRequest ''2setBreakpoints'' [2, 20])))))"
proof -
  let ?r = "newCellDump exampleParse ''/tmp/b.py'' (exampleMetadata 15 85)"
  let ?sub = "\<lparr> req_seq = 7, command = ''2setBreakpoints'',
       arguments =
         \<lparr> args_source = \<lparr> src_name = Some ''file.py'', src_path = Some ''/work/file.py'' \<rparr>,
           args_breakpoints = Some [lineBreakpoint 20] \<rparr> \<rparr>"
  let ?answer = "\<lparr> verified = True,
                    bk_source = Some \<lparr> src_name = Some ''/work/file.py'',
                                        src_path = Some ''file:///work/file.py'' \<rparr>,
                    bk_line = Some 20, bk_endLine = None, bk_column = None,
                    bk_condition = None \<rparr>"
  have store: "exampleLateStore = [?r]"
    by (simp add: exampleLateStore_def dumpCell_def exampleCell_def kernelDumpsTo_def
        initialIWAdapter_def sortInReverseOrder_def codeOfCell_def Let_def)
  have r: "lineIndex (interactive (metadata ?r)) = 15" "lineOffset ?r = 100"
    "uri_path (interactiveWindow ?r) = ''/work/file.py''" "debugFilePath ?r = ''/tmp/b.py''"
    "uri_toString (interactiveWindow ?r) = ''file:///work/file.py''"
    by (simp_all add: newCellDump_def exampleMetadata_def exampleParse_def)
  have c2: "cellForBp [?r] (lineBreakpoint 2) = None"
    and c20: "cellForBp [?r] (lineBreakpoint 20) = Some ?r"
    by (simp_all add: cellForBp_def r lineBreakpoint_def)
  have ps: "partitionBreakpoints [?r] (exampleRequest ''2setBreakpoints'' [2, 20])
      = [Resolved (fakeResponse (lineBreakpoint 2)), SubRequest ?sub]"
    by (simp add: partitionBreakpoints_def requestBreakpoints_def exampleRequest_def c2 c20 r
        sendIfNeeded_def)
  have pass: "passThrough id exampleKernel [?r] ?sub
      = Inr \<lparr> resp_success = Some True, resp_command = Some ''2setBreakpoints'',
              body = Some \<lparr> breakpoints = Some [?answer] \<rparr> \<rparr>"
    by (simp add: passThrough_def passThroughRequest_def
        translateRealLocationToDebuggerLocation_def startLineOf_def cellForStartLine_def r
        lineBreakpoint_def shiftLocationToKernel_def toKernel_def exampleKernel_def
        untranslateResponse_def untranslateBreakpoint_def translateDebuggerFileToRealFile_def
        shiftLinesToReal_def toReal_def)
  have run: "sendRequestToJupyterSession2 customRequestResolves
            (passThrough id exampleKernel [?r]) [?r]
            (exampleRequest ''2setBreakpoints'' [2, 20])
      = ([SuperSendRequest ?sub],
         Inr \<lparr> resp_success = None, resp_command = None,
               body = Some \<lparr> breakpoints = Some
                 [fakeBreakpoint (lineBreakpoint 2), ?answer] \<rparr> \<rparr>)"
  proof -
    have g: "command (exampleRequest ''2setBreakpoints'' [2, 20]) = ''2setBreakpoints''"
      "firstInteractiveWindowPath [?r]
        = src_path (args_source (arguments (exampleRequest ''2setBreakpoints'' [2, 20])))"
      by (simp_all add: exampleRequest_def firstInteractiveWindowPath_def r)
    show ?thesis
      unfolding sendRequestToJupyterSession2_def ps
      by (simp add: g pass fakeResponse_def mergeStep_def)
  qed
  show ?thesis
    using C7_unmapped_breakpoints_synthesized
      [of exampleLateStore "exampleRequest ''2setBreakpoints'' [2, 20]" "lineBreakpoint 2"
          customRequestResolves "passThrough id exampleKernel exampleLateStore"]
    unfolding store run
    by (simp add: c2 firstInteractiveWindowPath_def r exampleRequest_def
        requestBreakpoints_def responseBreakpoints_def fakeBreakpoint_def)
qed

section \<open>Forwarding \<open>setBreakpoints\<close> with an empty store\<close>

text \<open>
  C9. Forwarding a \<open>setBreakpoints\<close> request needs at least one dump record: the handler
  reads \<open>cellToDebugFileSortedInReverseOrderByLineNumber[0].debugFilePath\<close> before anything
  else, so with an empty store it throws a \<open>TypeError\<close> and sends nothing, neither the source
  map nor the request itself; with a record in the store and a source-map request that
  resolves, it sends the source map built from the first record and then the request.
\<close>

theorem C9_setBreakpoints_needs_a_record:
  assumes "command request = ''setBreakpoints''"
  shows "sendRequestToJupyterSession2 customRequest super [] request = ([], Inl TypeError)
       \<and> (customRequest ''setPydevdSourceMap''
              (sourceMapRequestFor request (debugFilePath first_cell)) = Inr ()
          \<longrightarrow> sendRequestToJupyterSession2 customRequest super (first_cell # others) request
              = ([CustomRequest ''setPydevdSourceMap''
                    (sourceMapRequestFor request (debugFilePath first_cell)),
                  SuperSendRequest request],
                 super request))"
  using assms by (simp add: sendRequestToJupyterSession2_def Let_def)

theorem C9_setBreakpoints_needs_a_record_witness:
  "command (exampleRequest ''setBreakpoints'' [2, 3]) = ''setBreakpoints''
   \<and> sendRequestToJupyterSession2 customRequestResolves exampleKernel []
       (exampleRequest ''setBreakpoints'' [2, 3]) = ([], Inl TypeError)
   \<and> customRequestResolves ''setPydevdSourceMap''
       (sourceMapRequestFor (exampleRequest ''setBreakpoints'' [2, 3])
          (debugFilePath (hd exampleStore))) = Inr ()
   \<and> fst (sendRequestToJupyterSession2 customRequestResolves exampleKernel
            (hd exampleStore # tl exampleStore) (exampleRequest ''setBreakpoints'' [2, 3]))
       = [CustomRequest ''setPydevdSourceMap''
            (sourceMapRequestFor (exampleRequest ''setBreakpoints'' [2, 3])
               (debugFilePath (hd exampleStore))),
          SuperSendRequest (exampleRequest ''setBreakpoints'' [2, 3])]"
proof -
  have c: "command (exampleRequest ''setBreakpoints'' [2, 3]) = ''setBreakpoints''"
    by (simp add: exampleRequest_def)
  show ?thesis
    using C9_setBreakpoints_needs_a_record [OF c, of customRequestResolves exampleKernel
        "hd exampleStore" "tl exampleStore"]
    by (simp add: c customRequestResolves_def)
qed

section \<open>Merging no response\<close>

text \<open>
  C10. The merge of the partitioner needs at least one sub-response. For a partitioned
  request whose breakpoints array is empty (or absent) the loop creates no sub-request
  and no synthesized entry, nothing is sent, and the merge fails with the
  \<open>SyntaxError\<close> of \<open>JSON.parse(undefined)\<close> instead of returning a response with an empty
  list of breakpoints.
\<close>

theorem C10_merge_needs_a_response:
  assumes "command request = ''2setBreakpoints''"
    and "firstInteractiveWindowPath store = src_path (args_source (arguments request))"
    and "requestBreakpoints request = []"
  shows "partitionBreakpoints store request = []
       \<and> sendRequestToJupyterSession2 customRequest super store request
           = ([], Inl SyntaxError)"
proof -
  have p: "partitionBreakpoints store request = []"
    using assms(3) by (simp add: partitionBreakpoints_def sendIfNeeded_def)
  show ?thesis
    using assms(1,2) by (simp add: sendRequestToJupyterSession2_def p)
qed

theorem C10_merge_needs_a_response_witness:
  "command (exampleRequest ''2setBreakpoints'' []) = ''2setBreakpoints''
   \<and> firstInteractiveWindowPath exampleStore
       = src_path (args_source (arguments (exampleRequest ''2setBreakpoints'' [])))
   \<and> requestBreakpoints (exampleRequest ''2setBreakpoints'' []) = []
   \<and> sendRequestToJupyterSession2 customRequestResolves
       (passThrough id exampleKernel exampleStore) exampleStore
       (exampleRequest ''2setBreakpoints'' [])
     = ([], Inl SyntaxError)"
proof -
  have c: "command (exampleRequest ''2setBreakpoints'' []) = ''2setBreakpoints''"
    and b: "requestBreakpoints (exampleRequest ''2setBreakpoints'' []) = []"
    by (simp_all add: exampleRequest_def requestBreakpoints_def)
  have f: "firstInteractiveWindowPath exampleStore
       = src_path (args_source (arguments (exampleRequest ''2setBreakpoints'' [])))"
    by (simp add: exampleStore_def dumpCell_def exampleCell_def kernelDumpsTo_def
        initialIWAdapter_def sortInReverseOrder_def codeOfCell_def Let_def newCellDump_def
        exampleMetadata_def exampleParse_def firstInteractiveWindowPath_def exampleRequest_def)
  show ?thesis
    using C10_merge_needs_a_response [OF c f b, of customRequestResolves
        "passThrough id exampleKernel exampleStore"]
    by (simp add: c f b)
qed

section \<open>Partition of a request over two dumped cells\<close>

text \<open>
  C2, as stated, fails: a request whose command is \<open>setBreakpoints\<close> is not partitioned.
  The branch that partitions is guarded by the command \<open>2setBreakpoints\<close>; for
  \<open>setBreakpoints\<close> the adapter sends a \<open>setPydevdSourceMap\<close> custom request and hands the
  whole request to the base class once. With breakpoints at lines 2, 3, 20 and 21 the
  kernel then receives a single request, for the file of the record that owns line 2,
  with all four lines translated by that record's offset.
\<close>

theorem C2_setBreakpoints_is_not_partitioned:
  "fst (sendRequestToJupyterSession2 customRequestResolves
          (passThrough id exampleKernel exampleStore) exampleStore
          (exampleRequest ''setBreakpoints'' [2, 3, 20, 21]))
     = [CustomRequest ''setPydevdSourceMap''
          (sourceMapRequestFor (exampleRequest ''setBreakpoints'' [2, 3, 20, 21]) ''/tmp/b.py''),
        SuperSendRequest (exampleRequest ''setBreakpoints'' [2, 3, 20, 21])]
   \<and> passThroughRequest exampleStore (exampleRequest ''setBreakpoints'' [2, 3, 20, 21])
     = Inr \<lparr> req_seq = 7, command = ''setBreakpoints'',
             arguments =
               \<lparr> args_source = \<lparr> src_name = Some ''file.py'', src_path = Some ''/tmp/a.py'' \<rparr>,
                 args_breakpoints = Some (map lineBreakpoint [- 8, - 7, 10, 11]) \<rparr> \<rparr>"
proof -
  have store: "exampleStore
      = [newCellDump exampleParse ''/tmp/b.py'' (exampleMetadata 15 85),
         newCellDump exampleParse ''/tmp/a.py'' (exampleMetadata 0 10)]"
    by (simp add: exampleStore_def dumpCell_def exampleCell_def kernelDumpsTo_def
        initialIWAdapter_def sortInReverseOrder_def codeOfCell_def Let_def newCellDump_def
        exampleMetadata_def)
  show ?thesis
    unfolding store
    by (simp add: sendRequestToJupyterSession2_def exampleRequest_def customRequestResolves_def
        newCellDump_def exampleMetadata_def exampleParse_def passThroughRequest_def
        translateRealLocationToDebuggerLocation_def startLineOf_def cellForStartLine_def
        lineBreakpoint_def shiftLocationToKernel_def toKernel_def Let_def)
qed

text \<open>
  C2, amended. For an incoming request with command \<open>2setBreakpoints\<close> against the logical
  multi-cell document, with breakpoints at lines 2, 3, 20 and 21, where lines 2 and 3 are
  owned by dump record A (\<open>lineOffset = 10\<close>) and lines 20 and 21 by dump record B
  (\<open>lineOffset = 100\<close>), the partitioner issues exactly two sub-requests, in this order: one
  with the breakpoints at lines 2 and 3, which reaches the kernel for A's \<open>debugFilePath\<close>
  with lines \<open>-8\<close> and \<open>-7\<close>, and one with the breakpoints at lines 20 and 21, which reaches
  the kernel for B's \<open>debugFilePath\<close> with lines \<open>-80\<close> and \<open>-79\<close>. When the kernel answers
  each with as many breakpoints as it was sent, the merged response holds the answers
  of the first group followed by those of the second, four in all.
\<close>

theorem C2_partition_two_groups:
  assumes A: "lineOffset A = 10" "lineIndex (interactive (metadata A)) + 1 \<le> 2"
      "uri_path (interactiveWindow A) = p"
    and B: "lineOffset B = 100" "lineIndex (interactive (metadata B)) + 1 \<le> 20"
      "3 < lineIndex (interactive (metadata B)) + 1" "uri_path (interactiveWindow B) = p"
    and p: "p \<noteq> []"
    and req: "command request = ''2setBreakpoints''"
      "src_path (args_source (arguments request)) = Some p"
      "args_breakpoints (arguments request) = Some (map lineBreakpoint [2, 3, 20, 21])"
    and kA: "kernelAnswer
        (request\<lparr> arguments :=
           \<lparr> args_source = (args_source (arguments request))\<lparr> src_path := Some (debugFilePath A) \<rparr>,
             args_breakpoints = Some (map lineBreakpoint [- 8, - 7]) \<rparr> \<rparr>) = Inr rA"
      "body rA = Some bodyA" "breakpoints bodyA = Some xsA" "length xsA = 2"
    and kB: "kernelAnswer
        (request\<lparr> arguments :=
           \<lparr> args_source = (args_source (arguments request))\<lparr> src_path := Some (debugFilePath B) \<rparr>,
             args_breakpoints = Some (map lineBreakpoint [- 80, - 79]) \<rparr> \<rparr>) = Inr rB"
      "body rB = Some bodyB" "breakpoints bodyB = Some xsB" "length xsB = 2"
  shows "fst (sendRequestToJupyterSession2 customRequest
                (passThrough basename kernelAnswer [B, A]) [B, A] request)
           = [SuperSendRequest (request\<lparr> arguments :=
                (arguments request)\<lparr> args_breakpoints := Some (map lineBreakpoint [2, 3]) \<rparr> \<rparr>),
              SuperSendRequest (request\<lparr> arguments :=
                (arguments request)\<lparr> args_breakpoints := Some (map lineBreakpoint [20, 21]) \<rparr> \<rparr>)]
       \<and> passThroughRequest [B, A] (request\<lparr> arguments :=
                (arguments request)\<lparr> args_breakpoints := Some (map lineBreakpoint [2, 3]) \<rparr> \<rparr>)
           = Inr (request\<lparr> arguments :=
               \<lparr> args_source = (args_source (arguments request))\<lparr> src_path := Some (debugFilePath A) \<rparr>,
                 args_breakpoints = Some (map lineBreakpoint [- 8, - 7]) \<rparr> \<rparr>)
       \<and> passThroughRequest [B, A] (request\<lparr> arguments :=
                (arguments request)\<lparr> args_breakpoints := Some (map lineBreakpoint [20, 21]) \<rparr> \<rparr>)
           = Inr (request\<lparr> arguments :=
               \<lparr> args_source = (args_source (arguments request))\<lparr> src_path := Some (debugFilePath B) \<rparr>,
                 args_breakpoints = Some (map lineBreakpoint [- 80, - 79]) \<rparr> \<rparr>)
       \<and> (\<exists>resp. snd (sendRequestToJupyterSession2 customRequest
                        (passThrough basename kernelAnswer [B, A]) [B, A] request) = Inr resp
             \<and> responseBreakpoints resp
                 = map (untranslateBreakpoint basename [B, A]) xsA
                   @ map (untranslateBreakpoint basename [B, A]) xsB
             \<and> length (responseBreakpoints resp) = 4)"
proof -
  let ?subA = "request\<lparr> arguments :=
                (arguments request)\<lparr> args_breakpoints := Some [lineBreakpoint 2, lineBreakpoint 3] \<rparr> \<rparr>"
  let ?subB = "request\<lparr> arguments :=
                (arguments request)\<lparr> args_breakpoints := Some [lineBreakpoint 20, lineBreakpoint 21] \<rparr> \<rparr>"
  let ?kA = "request\<lparr> arguments :=
               \<lparr> args_source = (args_source (arguments request))\<lparr> src_path := Some (debugFilePath A) \<rparr>,
                 args_breakpoints = Some [lineBreakpoint (- 8), lineBreakpoint (- 7)] \<rparr> \<rparr>"
  let ?kB = "request\<lparr> arguments :=
               \<lparr> args_source = (args_source (arguments request))\<lparr> src_path := Some (debugFilePath B) \<rparr>,
                 args_breakpoints = Some [lineBreakpoint (- 80), lineBreakpoint (- 79)] \<rparr> \<rparr>"
  let ?u = "untranslateBreakpoint basename [B, A]"
  have jB: "jsAdd (lineIndex (interactive (metadata B))) 1
            = lineIndex (interactive (metadata B)) + 1"
    using B(2,3) by (intro jsAdd_exact) simp
  have jA: "jsAdd (lineIndex (interactive (metadata A))) 1 \<le> 2"
    using A(2) by (rule jsAdd_le) simp_all
  have owner:
    "cellForBp [B, A] (lineBreakpoint 2) = Some A" "cellForBp [B, A] (lineBreakpoint 3) = Some A"
    "cellForBp [B, A] (lineBreakpoint 20) = Some B" "cellForBp [B, A] (lineBreakpoint 21) = Some B"
    using jA B(2,3) by (simp_all add: cellForBp_def lineBreakpoint_def jB)
  have ps: "partitionBreakpoints [B, A] request = [SubRequest ?subA, SubRequest ?subB]"
    by (simp add: partitionBreakpoints_def requestBreakpoints_def req(3) owner A(1) B(1)
        sendIfNeeded_def)
  have startA: "cellForStartLine [B, A] 2 = Some A" and startB: "cellForStartLine [B, A] 20 = Some B"
    using jA B(2,3) by (simp_all add: cellForStartLine_def jB)
  have tA: "passThroughRequest [B, A] ?subA = Inr ?kA"
    using p
    by (simp add: passThroughRequest_def translateRealLocationToDebuggerLocation_def
        startLineOf_def lineBreakpoint_def startA req(2) A(1,3) shiftLocationToKernel_def
        toKernel_def)
  have tB: "passThroughRequest [B, A] ?subB = Inr ?kB"
    using p
    by (simp add: passThroughRequest_def translateRealLocationToDebuggerLocation_def
        startLineOf_def lineBreakpoint_def startB req(2) B(1,4) shiftLocationToKernel_def
        toKernel_def)
  have kA': "kernelAnswer ?kA = Inr rA" and kB': "kernelAnswer ?kB = Inr rB"
    using kA(1) kB(1) by simp_all
  have pA: "passThrough basename kernelAnswer [B, A] ?subA
            = Inr (untranslateResponse basename [B, A] rA)"
    unfolding passThrough_def tA by (simp only: sum.case kA')
  have pB: "passThrough basename kernelAnswer [B, A] ?subB
            = Inr (untranslateResponse basename [B, A] rB)"
    unfolding passThrough_def tB by (simp only: sum.case kB')
  have first: "firstInteractiveWindowPath [B, A] = src_path (args_source (arguments request))"
    by (simp add: firstInteractiveWindowPath_def B(4) req(2))
  have run: "sendRequestToJupyterSession2 customRequest
                (passThrough basename kernelAnswer [B, A]) [B, A] request
      = ([SuperSendRequest ?subA, SuperSendRequest ?subB],
         mergeStep (untranslateResponse basename [B, A] rA)
           (untranslateResponse basename [B, A] rB))"
    unfolding sendRequestToJupyterSession2_def ps
    by (simp add: req(1) first pA pB split: sum.splits)
  have merged: "mergeStep (untranslateResponse basename [B, A] rA)
           (untranslateResponse basename [B, A] rB)
      = Inr ((untranslateResponse basename [B, A] rA)\<lparr> body :=
               Some (bodyA\<lparr> breakpoints := Some (map ?u xsA @ map ?u xsB) \<rparr>) \<rparr>)"
    by (simp add: mergeStep_def untranslateResponse_def kA(2,3) kB(2,3))
  have bps: "responseBreakpoints ((untranslateResponse basename [B, A] rA)\<lparr> body :=
               Some (bodyA\<lparr> breakpoints := Some (map ?u xsA @ map ?u xsB) \<rparr>) \<rparr>)
             = map ?u xsA @ map ?u xsB"
    by (simp add: responseBreakpoints_def)
  show ?thesis
    unfolding run merged
    using tA tB bps kA(4) kB(4) by simp
qed

text \<open>The store built by two dumps, and a kernel that verifies what it is sent.\<close>

theorem C2_partition_two_groups_witness:
  "map lineOffset exampleStore = [100, 10]
   \<and> fst (sendRequestToJupyterSession2 customRequestResolves
            (passThrough id exampleKernel exampleStore) exampleStore
            (exampleRequest ''2setBreakpoints'' [2, 3, 20, 21]))
       = [SuperSendRequest (exampleRequest ''2setBreakpoints'' [2, 3]),
          SuperSendRequest (exampleRequest ''2setBreakpoints'' [20, 21])]
   \<and> map (passThroughRequest exampleStore)
       [exampleRequest ''2setBreakpoints'' [2, 3], exampleRequest ''2setBreakpoints'' [20, 21]]
       = [Inr \<lparr> req_seq = 7, command = ''2setBreakpoints'',
               arguments =
                 \<lparr> args_source = \<lparr> src_name = Some ''file.py'', src_path = Some ''/tmp/a.py'' \<rparr>,
                   args_breakpoints = Some (map lineBreakpoint [- 8, - 7]) \<rparr> \<rparr>,
          Inr \<lparr> req_seq = 7, command = ''2setBreakpoints'',
               arguments =
                 \<lparr> args_source = \<lparr> src_name = Some ''file.py'', src_path = Some ''/tmp/b.py'' \<rparr>,
                   args_breakpoints = Some (map lineBreakpoint [- 80, - 79]) \<rparr> \<rparr>]
   \<and> length (responseBreakpoints (projr (snd
        (sendRequestToJupyterSession2 customRequestResolves
           (passThrough id exampleKernel exampleStore) exampleStore
           (exampleRequest ''2setBreakpoints'' [2, 3, 20, 21]))))) = 4"
proof -
  let ?A = "newCellDump exampleParse ''/tmp/a.py'' (exampleMetadata 0 10)"
  let ?B = "newCellDump exampleParse ''/tmp/b.py'' (exampleMetadata 15 85)"
  let ?req = "exampleRequest ''2setBreakpoints'' [2, 3, 20, 21]"
  let ?ans = "\<lambda>f ls. \<lparr> resp_success = Some True, resp_command = Some ''2setBreakpoints'',
       body = Some \<lparr> breakpoints = Some
         (map (\<lambda>l. \<lparr> verified = True,
                     bk_source = Some \<lparr> src_name = Some ''file.py'', src_path = Some f \<rparr>,
                     bk_line = Some l, bk_endLine = None, bk_column = None,
                     bk_condition = None \<rparr>) ls) \<rparr> \<rparr>"
  have store: "exampleStore = [?B, ?A]"
    by (simp add: exampleStore_def dumpCell_def exampleCell_def kernelDumpsTo_def
        initialIWAdapter_def sortInReverseOrder_def codeOfCell_def Let_def newCellDump_def
        exampleMetadata_def)
  have A: "lineOffset ?A = 10" "lineIndex (interactive (metadata ?A)) + 1 \<le> 2"
      "uri_path (interactiveWindow ?A) = ''/work/file.py''"
    and B: "lineOffset ?B = 100" "lineIndex (interactive (metadata ?B)) + 1 \<le> 20"
      "3 < lineIndex (interactive (metadata ?B)) + 1"
      "uri_path (interactiveWindow ?B) = ''/work/file.py''"
    and paths: "debugFilePath ?A = ''/tmp/a.py''" "debugFilePath ?B = ''/tmp/b.py''"
    by (simp_all add: newCellDump_def exampleMetadata_def exampleParse_def)
  have p: "''/work/file.py'' \<noteq> []"
    by simp
  have req: "command ?req = ''2setBreakpoints''"
      "src_path (args_source (arguments ?req)) = Some ''/work/file.py''"
      "args_breakpoints (arguments ?req) = Some (map lineBreakpoint [2, 3, 20, 21])"
    by (simp_all add: exampleRequest_def)
  have kA: "exampleKernel (?req\<lparr> arguments :=
           \<lparr> args_source = (args_source (arguments ?req))\<lparr> src_path := Some (debugFilePath ?A) \<rparr>,
             args_breakpoints = Some (map lineBreakpoint [- 8, - 7]) \<rparr> \<rparr>)
        = Inr (?ans ''/tmp/a.py'' [- 8, - 7])"
    and kB: "exampleKernel (?req\<lparr> arguments :=
           \<lparr> args_source = (args_source (arguments ?req))\<lparr> src_path := Some (debugFilePath ?B) \<rparr>,
             args_breakpoints = Some (map lineBreakpoint [- 80, - 79]) \<rparr> \<rparr>)
        = Inr (?ans ''/tmp/b.py'' [- 80, - 79])"
    by (simp_all add: exampleKernel_def exampleRequest_def paths lineBreakpoint_def)
  have subs: "?req\<lparr> arguments :=
                (arguments ?req)\<lparr> args_breakpoints := Some (map lineBreakpoint ls) \<rparr> \<rparr>
              = exampleRequest ''2setBreakpoints'' ls" for ls
    by (simp add: exampleRequest_def)
  have kreq: "?req\<lparr> arguments :=
           \<lparr> args_source = (args_source (arguments ?req))\<lparr> src_path := Some f \<rparr>,
             args_breakpoints = Some bs \<rparr> \<rparr>
        = \<lparr> req_seq = 7, command = ''2setBreakpoints'',
            arguments =
              \<lparr> args_source = \<lparr> src_name = Some ''file.py'', src_path = Some f \<rparr>,
                args_breakpoints = Some bs \<rparr> \<rparr>" for f bs
    by (simp add: exampleRequest_def)
  let ?bks = "\<lambda>f ls. map (\<lambda>l. \<lparr> verified = True,
                     bk_source = Some \<lparr> src_name = Some ''file.py'', src_path = Some f \<rparr>,
                     bk_line = Some l, bk_endLine = None, bk_column = None,
                     bk_condition = None \<rparr>) ls"
  have b1: "body (?ans f ls) = Some \<lparr> breakpoints = Some (?bks f ls) \<rparr>" for f ls
    by simp
  have b2: "breakpoints \<lparr> breakpoints = Some (?bks f ls) \<rparr> = Some (?bks f ls)" for f ls
    by simp
  have b3: "length (?bks f [a, b]) = 2" for f a b
    by simp
  note inst = C2_partition_two_groups [OF A B p req kA b1 b2 b3 kB b1 b2 b3,
      of customRequestResolves id]
  from inst obtain resp where
    s: "snd (sendRequestToJupyterSession2 customRequestResolves
            (passThrough id exampleKernel [?B, ?A]) [?B, ?A] ?req) = Inr resp"
    and l: "length (responseBreakpoints resp) = 4"
    by blast
  from inst have
    f: "fst (sendRequestToJupyterSession2 customRequestResolves
            (passThrough id exampleKernel [?B, ?A]) [?B, ?A] ?req)
        = [SuperSendRequest (exampleRequest ''2setBreakpoints'' [2, 3]),
           SuperSendRequest (exampleRequest ''2setBreakpoints'' [20, 21])]"
    unfolding subs by blast
  from inst have
    tA: "passThroughRequest [?B, ?A] (exampleRequest ''2setBreakpoints'' [2, 3])
        = Inr \<lparr> req_seq = 7, command = ''2setBreakpoints'',
               arguments =
                 \<lparr> args_source = \<lparr> src_name = Some ''file.py'', src_path = Some ''/tmp/a.py'' \<rparr>,
                   args_breakpoints = Some (map lineBreakpoint [- 8, - 7]) \<rparr> \<rparr>"
    unfolding subs kreq paths by blast
  from inst have
    tB: "passThroughRequest [?B, ?A] (exampleRequest ''2setBreakpoints'' [20, 21])
        = Inr \<lparr> req_seq = 7, command = ''2setBreakpoints'',
               arguments =
                 \<lparr> args_source = \<lparr> src_name = Some ''file.py'', src_path = Some ''/tmp/b.py'' \<rparr>,
                   args_breakpoints = Some (map lineBreakpoint [- 80, - 79]) \<rparr> \<rparr>"
    unfolding subs kreq paths by blast
  have off: "map lineOffset [?B, ?A] = [100, 10]"
    by (simp add: A B)
  show ?thesis
    unfolding store using off f tA tB s l by simp
qed

end
